theory Spec2Isabelle
  imports Main "HOL-Library.Word" "HOL-Library.Signed_Division"
begin

unbundle bit_operations_syntax

section \<open>The event injector of libuiohook on Windows: \<^verbatim>\<open>src/windows/post_event.c\<close>\<close>

text \<open>
  The file holds one exported function, \<^verbatim>\<open>hook_post_event\<close>, the helper
  \<^verbatim>\<open>convert_to_relative_position\<close> and the table \<^verbatim>\<open>extend_key_table\<close>.
  The function reads one \<^verbatim>\<open>uiohook_event\<close>, builds at most one \<^verbatim>\<open>INPUT\<close> record
  and hands it to \<^verbatim>\<open>SendInput\<close>; everything it reports goes to \<^verbatim>\<open>logger\<close>.

  The embedding keeps the C types: \<^verbatim>\<open>uint16_t\<close>, \<^verbatim>\<open>WORD\<close> are \<^typ>\<open>16 word\<close>,
  \<^verbatim>\<open>DWORD\<close>, \<^verbatim>\<open>UINT\<close> and the enum \<^verbatim>\<open>event_type\<close> are \<^typ>\<open>32 word\<close>. Arithmetic
  in C's \<^verbatim>\<open>int\<close> (32 bits on every Windows target) is done on \<^typ>\<open>int\<close> and
  every operation checks its result: signed overflow and division by zero are undefined
  behaviour in C and are results of their own here.
\<close>

subsection \<open>Arithmetic in C's int\<close>

datatype c_error = SignedOverflow | DivisionByZero

definition INT_MIN :: int where
  "INT_MIN = - 2147483648"

definition INT_MAX :: int where
  "INT_MAX = 2147483647"

definition c_int :: "int \<Rightarrow> c_error + int" where
  "c_int v = (if INT_MIN \<le> v \<and> v \<le> INT_MAX then Inr v else Inl SignedOverflow)"

definition c_mul :: "int \<Rightarrow> int \<Rightarrow> c_error + int" where
  "c_mul a b = c_int (a * b)"

definition c_add :: "int \<Rightarrow> int \<Rightarrow> c_error + int" where
  "c_add a b = c_int (a + b)"

text \<open>C's \<^verbatim>\<open>/\<close> on int truncates towards zero: that is \<open>sdiv\<close>, not \<open>div\<close>.\<close>

definition c_div :: "int \<Rightarrow> int \<Rightarrow> c_error + int" where
  "c_div a b = (if b = 0 then Inl DivisionByZero else c_int (a sdiv b))"

text \<open>Sequencing of two steps either of which may be undefined.\<close>

definition c_then :: "c_error + 'a \<Rightarrow> ('a \<Rightarrow> c_error + 'b) \<Rightarrow> c_error + 'b" where
  "c_then r f = (case r of Inl e \<Rightarrow> Inl e | Inr v \<Rightarrow> f v)"

subsection \<open>Coordinate normalisation\<close>

definition MAX_WINDOWS_COORD_VALUE :: int where
  "MAX_WINDOWS_COORD_VALUE = 2 ^ 16"

text \<open>
  \<^verbatim>\<open>
  static inline int convert_to_relative_position(int coordinate, int screen_size) {
      int offset = (coordinate > 0 ? 1 : -1);
      return ((coordinate * MAX_WINDOWS_COORD_VALUE) / screen_size) + offset;
  }
  \<close>
\<close>

definition convert_to_relative_position :: "int \<Rightarrow> int \<Rightarrow> c_error + int" where
  "convert_to_relative_position coordinate screen_size =
     (let offset = (if coordinate > 0 then 1 else - 1) in
      c_then (c_mul coordinate MAX_WINDOWS_COORD_VALUE) (\<lambda>scaled.
      c_then (c_div scaled screen_size) (\<lambda>quotient.
      c_add quotient offset)))"

subsection \<open>Constants of the headers\<close>

text \<open>
  Modelled from the spec: the declarations of the library's public header \<^verbatim>\<open>uiohook.h\<close>,
  which is not among the sources. They are the eleven event tags (the variants of the
  spec's InputEvent; a value that is none of them is an unrecognised tag), the modifier
  mask with its SHIFT flag, and the button ordinals, counted from 1. The test
  \<^verbatim>\<open>event->mask & MASK_SHIFT\<close> is taken as the spec words it: it holds when the mask has a
  shift bit, the left one or the right one. The spec leaves the numbers of the tags and of
  the two shift bits open; they are the header's, and nothing below rests on them but that
  the tags differ from one another.

  The virtual keys, the flag bits, \<^verbatim>\<open>INPUT_MOUSE\<close>, \<^verbatim>\<open>INPUT_KEYBOARD\<close>, \<^verbatim>\<open>XBUTTON1\<close>,
  \<^verbatim>\<open>XBUTTON2\<close>, \<^verbatim>\<open>WHEEL_DELTA\<close> (the spec's one-notch constant, 120) and the two metric
  indices are the Windows SDK's (\<^verbatim>\<open>winuser.h\<close>). The three \<^verbatim>\<open>KEYEVENTF_*\<close> bits and
  \<^verbatim>\<open>KEYEVENTF_KEYDOWN\<close> are defined in \<^verbatim>\<open>post_event.c\<close> itself (lines 39 to 48).
\<close>

type_synonym event_type = "32 word"

definition EVENT_HOOK_ENABLED :: event_type where "EVENT_HOOK_ENABLED = 1"
definition EVENT_HOOK_DISABLED :: event_type where "EVENT_HOOK_DISABLED = 2"
definition EVENT_KEY_TYPED :: event_type where "EVENT_KEY_TYPED = 3"
definition EVENT_KEY_PRESSED :: event_type where "EVENT_KEY_PRESSED = 4"
definition EVENT_KEY_RELEASED :: event_type where "EVENT_KEY_RELEASED = 5"
definition EVENT_MOUSE_CLICKED :: event_type where "EVENT_MOUSE_CLICKED = 6"
definition EVENT_MOUSE_PRESSED :: event_type where "EVENT_MOUSE_PRESSED = 7"
definition EVENT_MOUSE_RELEASED :: event_type where "EVENT_MOUSE_RELEASED = 8"
definition EVENT_MOUSE_MOVED :: event_type where "EVENT_MOUSE_MOVED = 9"
definition EVENT_MOUSE_DRAGGED :: event_type where "EVENT_MOUSE_DRAGGED = 10"
definition EVENT_MOUSE_WHEEL :: event_type where "EVENT_MOUSE_WHEEL = 11"


definition MASK_SHIFT_L :: "16 word" where "MASK_SHIFT_L = push_bit 0 1"
definition MASK_SHIFT_R :: "16 word" where "MASK_SHIFT_R = push_bit 4 1"
definition MASK_SHIFT :: "16 word" where "MASK_SHIFT = MASK_SHIFT_L OR MASK_SHIFT_R"

definition MOUSE_BUTTON1 :: "16 word" where "MOUSE_BUTTON1 = 1"
definition MOUSE_BUTTON2 :: "16 word" where "MOUSE_BUTTON2 = 2"
definition MOUSE_BUTTON3 :: "16 word" where "MOUSE_BUTTON3 = 3"
definition MOUSE_BUTTON4 :: "16 word" where "MOUSE_BUTTON4 = 4"
definition MOUSE_BUTTON5 :: "16 word" where "MOUSE_BUTTON5 = 5"


definition VK_PRIOR :: "32 word" where "VK_PRIOR = 0x21"
definition VK_NEXT :: "32 word" where "VK_NEXT = 0x22"
definition VK_END :: "32 word" where "VK_END = 0x23"
definition VK_HOME :: "32 word" where "VK_HOME = 0x24"
definition VK_LEFT :: "32 word" where "VK_LEFT = 0x25"
definition VK_UP :: "32 word" where "VK_UP = 0x26"
definition VK_RIGHT :: "32 word" where "VK_RIGHT = 0x27"
definition VK_DOWN :: "32 word" where "VK_DOWN = 0x28"
definition VK_INSERT :: "32 word" where "VK_INSERT = 0x2D"
definition VK_DELETE :: "32 word" where "VK_DELETE = 0x2E"


definition INPUT_MOUSE :: "32 word" where "INPUT_MOUSE = 0"
definition INPUT_KEYBOARD :: "32 word" where "INPUT_KEYBOARD = 1"

definition KEYEVENTF_KEYDOWN :: "32 word" where "KEYEVENTF_KEYDOWN = 0x0000"
definition KEYEVENTF_EXTENDEDKEY :: "32 word" where "KEYEVENTF_EXTENDEDKEY = 0x0001"
definition KEYEVENTF_KEYUP :: "32 word" where "KEYEVENTF_KEYUP = 0x0002"


definition MOUSEEVENTF_MOVE :: "32 word" where "MOUSEEVENTF_MOVE = 0x0001"
definition MOUSEEVENTF_LEFTDOWN :: "32 word" where "MOUSEEVENTF_LEFTDOWN = 0x0002"
definition MOUSEEVENTF_LEFTUP :: "32 word" where "MOUSEEVENTF_LEFTUP = 0x0004"
definition MOUSEEVENTF_RIGHTDOWN :: "32 word" where "MOUSEEVENTF_RIGHTDOWN = 0x0008"
definition MOUSEEVENTF_RIGHTUP :: "32 word" where "MOUSEEVENTF_RIGHTUP = 0x0010"
definition MOUSEEVENTF_MIDDLEDOWN :: "32 word" where "MOUSEEVENTF_MIDDLEDOWN = 0x0020"
definition MOUSEEVENTF_MIDDLEUP :: "32 word" where "MOUSEEVENTF_MIDDLEUP = 0x0040"
definition MOUSEEVENTF_XDOWN :: "32 word" where "MOUSEEVENTF_XDOWN = 0x0080"
definition MOUSEEVENTF_XUP :: "32 word" where "MOUSEEVENTF_XUP = 0x0100"
definition MOUSEEVENTF_WHEEL :: "32 word" where "MOUSEEVENTF_WHEEL = 0x0800"
definition MOUSEEVENTF_ABSOLUTE :: "32 word" where "MOUSEEVENTF_ABSOLUTE = 0x8000"


definition XBUTTON1 :: "32 word" where "XBUTTON1 = 0x0001"
definition XBUTTON2 :: "32 word" where "XBUTTON2 = 0x0002"
definition WHEEL_DELTA :: int where "WHEEL_DELTA = 120"

definition SM_CXSCREEN :: int where "SM_CXSCREEN = 0"
definition SM_CYSCREEN :: int where "SM_CYSCREEN = 1"

subsection \<open>The event, the native record, the log\<close>

text \<open>
  Modelled from the spec: \<^verbatim>\<open>uiohook_event\<close>, declared in \<^verbatim>\<open>uiohook.h\<close> (the spec's
  InputEvent): the tag, the modifier mask and the payload. The payload is a C union
  (\<^verbatim>\<open>data.keyboard\<close>, \<^verbatim>\<open>data.mouse\<close>, \<^verbatim>\<open>data.wheel\<close>); the record has one field for
  each member \<^verbatim>\<open>hook_post_event\<close> reads, under the path it reads it by. \<^verbatim>\<open>x\<close>, \<^verbatim>\<open>y\<close>
  and \<^verbatim>\<open>rotation\<close> are \<^verbatim>\<open>int16_t\<close> (read with \<^const>\<open>sint\<close>), the others \<^verbatim>\<open>uint16_t\<close>.
\<close>

record uiohook_event =
  ev_type :: event_type
  ev_mask :: "16 word"
  data_keyboard_keycode :: "16 word"
  data_mouse_button :: "16 word"
  data_mouse_x :: "16 word"
  data_mouse_y :: "16 word"
  data_wheel_amount :: "16 word"
  data_wheel_rotation :: "16 word"

text \<open>
  \<^verbatim>\<open>INPUT\<close>: the tag and the two members of its union that the function writes,
  \<^verbatim>\<open>ki\<close> (KEYBDINPUT) and \<^verbatim>\<open>mi\<close> (MOUSEINPUT). The function writes \<^verbatim>\<open>ki\<close> only for
  the keyboard tags and \<^verbatim>\<open>mi\<close> only for the mouse tags, so the two never alias in a
  call. \<^verbatim>\<open>dx\<close> and \<^verbatim>\<open>dy\<close> are \<^verbatim>\<open>LONG\<close> (read with \<^const>\<open>sint\<close>).
\<close>

record INPUT =
  input_type :: "32 word"
  ki_wVk :: "16 word"
  ki_wScan :: "16 word"
  ki_dwFlags :: "32 word"
  ki_time :: "32 word"
  mi_dx :: "32 word"
  mi_dy :: "32 word"
  mi_mouseData :: "32 word"
  mi_dwFlags :: "32 word"
  mi_time :: "32 word"

text \<open>\<^verbatim>\<open>calloc(1, sizeof(INPUT))\<close>, when it succeeds: every byte is zero.\<close>

definition calloc_INPUT :: INPUT where
  "calloc_INPUT = \<lparr>input_type = 0, ki_wVk = 0, ki_wScan = 0, ki_dwFlags = 0, ki_time = 0,
     mi_dx = 0, mi_dy = 0, mi_mouseData = 0, mi_dwFlags = 0, mi_time = 0\<rparr>"

text \<open>
  A call of \<^verbatim>\<open>logger\<close>: the level, the format string and the arguments after it
  (\<^verbatim>\<open>__FUNCTION__\<close>, \<^verbatim>\<open>__LINE__\<close>, then the value reported, if any).
\<close>

datatype log_level = LOG_LEVEL_DEBUG | LOG_LEVEL_INFO | LOG_LEVEL_WARN | LOG_LEVEL_ERROR

datatype log_arg = ArgString string | ArgInt int

datatype log_entry = Logger (entry_level: log_level) (entry_format: string) (entry_args: "log_arg list")

text \<open>
  What the function calls and cannot see into: the screen geometry query, the keycode
  resolver of \<^verbatim>\<open>input_helper.h\<close>, whether \<^verbatim>\<open>calloc\<close> returns a block, the number of
  events \<^verbatim>\<open>SendInput\<close> reports as inserted, and the code \<^verbatim>\<open>GetLastError\<close> returns.
\<close>

record os_env =
  GetSystemMetrics :: "int \<Rightarrow> int"
  scancode_to_keycode :: "16 word \<Rightarrow> 32 word"
  calloc_ok :: bool
  SendInput :: "INPUT \<Rightarrow> 32 word"
  GetLastError :: "32 word"

text \<open>What a call leaves behind: the log entries and the records handed to \<^verbatim>\<open>SendInput\<close>, in order.\<close>

record effects =
  logged :: "log_entry list"
  sent :: "INPUT list"

subsection \<open>The extended-key table and the loop over it\<close>

text \<open>\<^verbatim>\<open>static UINT extend_key_table[10]\<close>, in the order of the source.\<close>

definition extend_key_table :: "32 word list" where
  "extend_key_table =
     [VK_UP, VK_DOWN, VK_LEFT, VK_RIGHT, VK_HOME, VK_END, VK_PRIOR, VK_NEXT, VK_INSERT, VK_DELETE]"

text \<open>
  \<^verbatim>\<open>
  for (unsigned int i = 0; i < sizeof(extend_key_table) / sizeof(UINT)
          && input->ki.wVk == extend_key_table[i]; i++) {
      input->ki.dwFlags |= KEYEVENTF_EXTENDEDKEY;
  }
  \<close>
  The loop as a recursion on \<open>i\<close>: it goes on while \<open>i\<close> is in the table and the key
  equals entry \<open>i\<close>, and returns the flags when the condition first fails. The
  comparison promotes the \<^verbatim>\<open>WORD\<close> to \<^verbatim>\<open>UINT\<close>.
\<close>

function extend_key_loop :: "nat \<Rightarrow> 16 word \<Rightarrow> 32 word \<Rightarrow> 32 word" where
  "extend_key_loop i wVk dwFlags =
     (if i < length extend_key_table \<and> ucast wVk = extend_key_table ! i
      then extend_key_loop (Suc i) wVk (dwFlags OR KEYEVENTF_EXTENDEDKEY)
      else dwFlags)"
  by pat_completeness auto
termination
  by (relation "measure (\<lambda>(i, wVk, dwFlags). length extend_key_table - i)") auto

subsection \<open>\<^verbatim>\<open>hook_post_event\<close>\<close>

text \<open>The five calls of \<^verbatim>\<open>logger\<close>, each with the line its \<^verbatim>\<open>__LINE__\<close> stands on.\<close>

definition log_lookup_failed :: "16 word \<Rightarrow> log_entry" where
  "log_lookup_failed keycode =
     Logger LOG_LEVEL_WARN ''%s [%u]: Unable to lookup scancode: %li\<newline>''
       [ArgString ''hook_post_event'', ArgInt 92, ArgInt (uint keycode)]"

definition log_calloc_failed :: "int \<Rightarrow> log_entry" where
  "log_calloc_failed line =
     Logger LOG_LEVEL_ERROR ''%s [%u]: failed to allocate memory: calloc\<newline>''
       [ArgString ''hook_post_event'', ArgInt line]"

definition log_ignoring :: "event_type \<Rightarrow> log_entry" where
  "log_ignoring t =
     Logger LOG_LEVEL_WARN ''%s [%u]: Ignoring post event type %#X\<newline>''
       [ArgString ''hook_post_event'', ArgInt 137, ArgInt (uint t)]"

definition log_SendInput_failed :: "32 word \<Rightarrow> log_entry" where
  "log_SendInput_failed last_error =
     Logger LOG_LEVEL_ERROR ''%s [%u]: SendInput() failed! (%#lX)\<newline>''
       [ArgString ''hook_post_event'', ArgInt 235, ArgInt (uint last_error)]"

text \<open>
  The first \<^verbatim>\<open>switch\<close> (lines 80 to 139): allocate and fill the record. The result is
  the pointer \<^verbatim>\<open>input\<close> (\<open>None\<close> for \<^verbatim>\<open>NULL\<close>) and the entries logged. The two
  screen extents are read before the switch and narrowed to \<^verbatim>\<open>uint16_t\<close>.
\<close>

definition hook_post_event_build ::
  "os_env \<Rightarrow> uiohook_event \<Rightarrow> c_error + (INPUT option \<times> log_entry list)" where
  "hook_post_event_build env event =
     (let screen_width = (word_of_int (GetSystemMetrics env SM_CXSCREEN) :: 16 word);
          screen_height = (word_of_int (GetSystemMetrics env SM_CYSCREEN) :: 16 word)
      in
      if ev_type event = EVENT_KEY_PRESSED \<or> ev_type event = EVENT_KEY_RELEASED then
        (if calloc_ok env then
           (let input = calloc_INPUT
                  \<lparr>input_type := INPUT_KEYBOARD, ki_wScan := 0, ki_time := 0,
                   ki_wVk := ucast (scancode_to_keycode env (data_keyboard_keycode event))\<rparr>;
                warned = (if ki_wVk input = 0x0000
                          then [log_lookup_failed (data_keyboard_keycode event)] else []);
                input = (if ev_mask event AND MASK_SHIFT \<noteq> 0
                         then input\<lparr>ki_dwFlags :=
                                extend_key_loop 0 (ki_wVk input) (ki_dwFlags input)\<rparr>
                         else input)
            in Inr (Some input, warned))
         else Inr (None, [log_calloc_failed 103]))
      else if ev_type event = EVENT_MOUSE_PRESSED \<or> ev_type event = EVENT_MOUSE_RELEASED
            \<or> ev_type event = EVENT_MOUSE_WHEEL \<or> ev_type event = EVENT_MOUSE_MOVED
            \<or> ev_type event = EVENT_MOUSE_DRAGGED then
        (if calloc_ok env then
           c_then (convert_to_relative_position (sint (data_mouse_x event)) (uint screen_width))
             (\<lambda>dx.
           c_then (convert_to_relative_position (sint (data_mouse_y event)) (uint screen_height))
             (\<lambda>dy.
           Inr (Some (calloc_INPUT
                  \<lparr>input_type := INPUT_MOUSE, mi_time := 0,
                   mi_dx := word_of_int dx, mi_dy := word_of_int dy\<rparr>), [])))
         else Inr (None, [log_calloc_failed 121]))
      else if ev_type event = EVENT_MOUSE_CLICKED \<or> ev_type event = EVENT_KEY_TYPED
            \<or> ev_type event = EVENT_HOOK_ENABLED \<or> ev_type event = EVENT_HOOK_DISABLED then
        Inr (None, [])
      else
        Inr (None, [log_ignoring (ev_type event)]))"

text \<open>
  The inner \<^verbatim>\<open>switch (event->data.mouse.button)\<close>, written twice in the source (lines
  155 to 182 and 187 to 214) with the flags of its tag: \<open>xflag\<close> is
  \<^verbatim>\<open>MOUSEEVENTF_XDOWN\<close> or \<^verbatim>\<open>MOUSEEVENTF_XUP\<close>, \<open>left\<close>, \<open>right\<close> and \<open>middle\<close>
  the three named transitions. \<^verbatim>\<open>button - 3\<close> is computed in int, where a
  \<^verbatim>\<open>uint16_t\<close> minus three cannot overflow, and stored in the \<^verbatim>\<open>DWORD\<close>.
\<close>

definition switch_button ::
  "32 word \<Rightarrow> 32 word \<Rightarrow> 32 word \<Rightarrow> 32 word \<Rightarrow> 16 word \<Rightarrow> INPUT \<Rightarrow> INPUT" where
  "switch_button xflag left right middle button input =
     (if button = MOUSE_BUTTON1 then input\<lparr>mi_dwFlags := mi_dwFlags input OR left\<rparr>
      else if button = MOUSE_BUTTON2 then input\<lparr>mi_dwFlags := mi_dwFlags input OR right\<rparr>
      else if button = MOUSE_BUTTON3 then input\<lparr>mi_dwFlags := mi_dwFlags input OR middle\<rparr>
      else
        (let input = input\<lparr>mi_dwFlags := mi_dwFlags input OR xflag\<rparr> in
         if button = MOUSE_BUTTON4 then input\<lparr>mi_mouseData := XBUTTON1\<rparr>
         else if button = MOUSE_BUTTON5 then input\<lparr>mi_mouseData := XBUTTON2\<rparr>
         else input\<lparr>mi_mouseData := word_of_int (uint button - 3)\<rparr>))"

text \<open>
  The second \<^verbatim>\<open>switch\<close> (lines 143 to 231), entered only with a record. The wheel's
  product is computed in int, left to right, and stored in the \<^verbatim>\<open>DWORD\<close>. A tag with
  no case leaves the record as it is.
\<close>

definition hook_post_event_flags :: "uiohook_event \<Rightarrow> INPUT \<Rightarrow> c_error + INPUT" where
  "hook_post_event_flags event input =
     (if ev_type event = EVENT_KEY_PRESSED then
        Inr (input\<lparr>ki_dwFlags := ki_dwFlags input OR KEYEVENTF_KEYDOWN\<rparr>)
      else if ev_type event = EVENT_KEY_RELEASED then
        Inr (input\<lparr>ki_dwFlags := ki_dwFlags input OR KEYEVENTF_KEYUP\<rparr>)
      else if ev_type event = EVENT_MOUSE_PRESSED then
        Inr (switch_button MOUSEEVENTF_XDOWN
               MOUSEEVENTF_LEFTDOWN MOUSEEVENTF_RIGHTDOWN MOUSEEVENTF_MIDDLEDOWN
               (data_mouse_button event)
               (input\<lparr>mi_dwFlags := mi_dwFlags input OR MOUSEEVENTF_XDOWN\<rparr>))
      else if ev_type event = EVENT_MOUSE_RELEASED then
        Inr (switch_button MOUSEEVENTF_XUP
               MOUSEEVENTF_LEFTUP MOUSEEVENTF_RIGHTUP MOUSEEVENTF_MIDDLEUP
               (data_mouse_button event)
               (input\<lparr>mi_dwFlags := mi_dwFlags input OR MOUSEEVENTF_XUP\<rparr>))
      else if ev_type event = EVENT_MOUSE_WHEEL then
        (let input = input\<lparr>mi_dwFlags := mi_dwFlags input OR MOUSEEVENTF_WHEEL\<rparr> in
         c_then (c_mul (uint (data_wheel_amount event)) (sint (data_wheel_rotation event)))
           (\<lambda>turned.
         c_then (c_mul turned WHEEL_DELTA)
           (\<lambda>delta.
         Inr (input\<lparr>mi_mouseData := word_of_int delta\<rparr>))))
      else if ev_type event = EVENT_MOUSE_DRAGGED \<or> ev_type event = EVENT_MOUSE_MOVED then
        Inr (input\<lparr>mi_dwFlags :=
               mi_dwFlags input OR (MOUSEEVENTF_ABSOLUTE OR MOUSEEVENTF_MOVE)\<rparr>)
      else Inr input)"

text \<open>
  The whole call: the first switch, then, with a record, the second switch and the one
  call of \<^verbatim>\<open>SendInput\<close> (lines 142 and 233 to 236), whose zero result is logged with
  \<^verbatim>\<open>GetLastError\<close>. \<open>Inl\<close> is a call that ran into undefined behaviour.
\<close>

definition hook_post_event :: "os_env \<Rightarrow> uiohook_event \<Rightarrow> c_error + effects" where
  "hook_post_event env event =
     c_then (hook_post_event_build env event) (\<lambda>(input, entries).
       case input of
         None \<Rightarrow> Inr \<lparr>logged = entries, sent = []\<rparr>
       | Some allocated \<Rightarrow>
           c_then (hook_post_event_flags event allocated) (\<lambda>built.
             Inr \<lparr>logged = entries @
                     (if SendInput env built = 0
                      then [log_SendInput_failed (GetLastError env)] else []),
                  sent = [built]\<rparr>))"

section \<open>Properties\<close>

subsection \<open>Arithmetic and the coordinate normalisation\<close>

lemma c_then_Inr [simp]: "c_then (Inr v) f = f v"
  by (simp add: c_then_def)

lemma c_then_Inl [simp]: "c_then (Inl e) f = Inl e"
  by (simp add: c_then_def)

lemma c_int_in_range: "- 2147483648 \<le> v \<Longrightarrow> v \<le> 2147483647 \<Longrightarrow> c_int v = Inr v"
  by (simp add: c_int_def INT_MIN_def INT_MAX_def)

lemma sdiv_nonneg_pos: "0 \<le> a \<Longrightarrow> 0 < s \<Longrightarrow> a sdiv s = a div (s::int)"
  by (cases "a = 0") (simp_all add: signed_divide_int_def)

lemma sdiv_neg_pos: "a < 0 \<Longrightarrow> 0 < s \<Longrightarrow> a sdiv s = - ((- a) div (s::int))"
  by (simp add: signed_divide_int_def)

lemma div_le_int: "0 \<le> a \<Longrightarrow> 0 < s \<Longrightarrow> a div s \<le> (a::int)"
  by (metis div_by_1 int_one_le_iff_zero_less zdiv_mono2 zero_less_one)

lemma neg_div_floor:
  fixes a s :: int
  assumes "0 < s"
  shows "- ((- a) div s) = a div s + (if s dvd a then 0 else 1)"
proof (cases "s dvd a")
  case True
  then show ?thesis by (simp add: dvd_neg_div)
next
  case False
  with assms show ?thesis
    using div_minus_right[of a s] zdiv_zminus1_eq_if[of s a]
    by (auto simp add: dvd_eq_mod_eq_0)
qed

lemma convert_positive:
  assumes "0 < c" "c \<le> 32767" "0 < s"
  shows "convert_to_relative_position c s = Inr (c * 65536 div s + 1)"
proof -
  have m: "c_mul c MAX_WINDOWS_COORD_VALUE = Inr (c * 65536)"
    using assms by (simp add: c_mul_def MAX_WINDOWS_COORD_VALUE_def c_int_in_range)
  have "0 \<le> c * 65536 div s" using assms by (simp add: pos_imp_zdiv_nonneg_iff)
  moreover have "c * 65536 div s \<le> c * 65536"
    using assms by (simp add: div_le_int)
  ultimately have d: "c_div (c * 65536) s = Inr (c * 65536 div s)"
    using assms by (simp add: c_div_def sdiv_nonneg_pos c_int_in_range)
  have a: "c_add (c * 65536 div s) 1 = Inr (c * 65536 div s + 1)"
    using \<open>0 \<le> c * 65536 div s\<close> \<open>c * 65536 div s \<le> c * 65536\<close> assms
    by (simp add: c_add_def c_int_in_range)
  show ?thesis using assms m d a by (simp add: convert_to_relative_position_def)
qed

lemma convert_negative:
  assumes "- 32768 \<le> c" "c < 0" "0 < s" "c \<noteq> - 32768 \<or> s \<noteq> 1"
  shows "convert_to_relative_position c s = Inr (- (- c * 65536 div s) - 1)"
proof -
  have m: "c_mul c MAX_WINDOWS_COORD_VALUE = Inr (c * 65536)"
    using assms by (simp add: c_mul_def MAX_WINDOWS_COORD_VALUE_def c_int_in_range)
  have q0: "0 \<le> - c * 65536 div s" using assms by (simp add: pos_imp_zdiv_nonneg_iff)
  have q1: "- c * 65536 div s \<le> - c * 65536"
    using assms by (simp add: div_le_int)
  have d: "c_div (c * 65536) s = Inr (- (- c * 65536 div s))"
    using assms q0 q1 sdiv_neg_pos[of "c * 65536" s] by (simp add: c_div_def c_int_in_range)
  have q2: "- c * 65536 div s \<le> 2147483647"
  proof (cases "s = 1")
    case True
    with assms have "- 32768 < c" by auto
    with True show ?thesis by simp
  next
    case False
    with assms have "2 \<le> s" by simp
    have "- c * 65536 div s \<le> - c * 65536 div 2"
      using \<open>2 \<le> s\<close> assms by (intro zdiv_mono2) simp_all
    also have "\<dots> \<le> 2147483647" using assms by simp
    finally show ?thesis .
  qed
  have a: "c_add (- (- c * 65536 div s)) (- 1) = Inr (- (- c * 65536 div s) - 1)"
    using q0 q2 by (simp add: c_add_def c_int_in_range)
  show ?thesis using assms m d a by (simp add: convert_to_relative_position_def)
qed

lemma convert_zero_size:
  assumes "- 32768 \<le> c" "c \<le> 32767"
  shows "convert_to_relative_position c 0 = Inl DivisionByZero"
proof -
  have m: "c_mul c MAX_WINDOWS_COORD_VALUE = Inr (c * 65536)"
    using assms by (simp add: c_mul_def MAX_WINDOWS_COORD_VALUE_def c_int_in_range)
  show ?thesis using m by (simp add: convert_to_relative_position_def c_div_def)
qed

lemma convert_Inr_nonzero:
  "convert_to_relative_position c s = Inr v \<Longrightarrow> s \<noteq> 0"
  by (auto simp add: convert_to_relative_position_def c_then_def c_div_def Let_def
      split: sum.splits if_splits)

subsection \<open>The two switches, branch by branch\<close>

lemmas event_type_defs =
  EVENT_HOOK_ENABLED_def EVENT_HOOK_DISABLED_def EVENT_KEY_TYPED_def EVENT_KEY_PRESSED_def
  EVENT_KEY_RELEASED_def EVENT_MOUSE_CLICKED_def EVENT_MOUSE_PRESSED_def
  EVENT_MOUSE_RELEASED_def EVENT_MOUSE_MOVED_def EVENT_MOUSE_DRAGGED_def EVENT_MOUSE_WHEEL_def

lemmas vk_defs =
  VK_PRIOR_def VK_NEXT_def VK_END_def VK_HOME_def VK_LEFT_def VK_UP_def VK_RIGHT_def
  VK_DOWN_def VK_INSERT_def VK_DELETE_def

lemmas keyeventf_defs = KEYEVENTF_KEYDOWN_def KEYEVENTF_EXTENDEDKEY_def KEYEVENTF_KEYUP_def

lemmas mouse_button_defs =
  MOUSE_BUTTON1_def MOUSE_BUTTON2_def MOUSE_BUTTON3_def MOUSE_BUTTON4_def MOUSE_BUTTON5_def

declare extend_key_loop.simps [simp del]

lemma extend_key_loop_first:
  "extend_key_loop 0 wVk dwFlags =
     (if ucast wVk = VK_UP then dwFlags OR KEYEVENTF_EXTENDEDKEY else dwFlags)"
proof (cases "(ucast wVk :: 32 word) = VK_UP")
  case True
  then have "(ucast wVk :: 32 word) \<noteq> VK_DOWN" by (simp add: vk_defs)
  then have stop: "extend_key_loop (Suc 0) wVk (dwFlags OR KEYEVENTF_EXTENDEDKEY)
      = dwFlags OR KEYEVENTF_EXTENDEDKEY"
    by (subst extend_key_loop.simps) (simp add: extend_key_table_def)
  show ?thesis
    using True stop by (subst extend_key_loop.simps) (simp add: extend_key_table_def)
next
  case False
  then show ?thesis
    by (subst extend_key_loop.simps) (simp add: extend_key_table_def)
qed



lemma build_keyboard:
  assumes "ev_type ev = EVENT_KEY_PRESSED \<or> ev_type ev = EVENT_KEY_RELEASED" "calloc_ok env"
  shows "hook_post_event_build env ev =
     Inr (Some \<lparr>input_type = INPUT_KEYBOARD,
                ki_wVk = ucast (scancode_to_keycode env (data_keyboard_keycode ev)),
                ki_wScan = 0,
                ki_dwFlags =
                  (if ev_mask ev AND MASK_SHIFT \<noteq> 0
                      \<and> ucast (ucast (scancode_to_keycode env (data_keyboard_keycode ev)) :: 16 word)
                          = VK_UP
                   then KEYEVENTF_EXTENDEDKEY else 0),
                ki_time = 0, mi_dx = 0, mi_dy = 0, mi_mouseData = 0, mi_dwFlags = 0,
                mi_time = 0\<rparr>,
          if (ucast (scancode_to_keycode env (data_keyboard_keycode ev)) :: 16 word) = 0
          then [log_lookup_failed (data_keyboard_keycode ev)] else [])"
  using assms
  by (simp add: hook_post_event_build_def Let_def calloc_INPUT_def extend_key_loop_first)


lemma flags_key_pressed:
  "ev_type ev = EVENT_KEY_PRESSED \<Longrightarrow>
   hook_post_event_flags ev inp = Inr (inp\<lparr>ki_dwFlags := ki_dwFlags inp OR KEYEVENTF_KEYDOWN\<rparr>)"
  by (simp add: hook_post_event_flags_def)

lemma flags_key_released:
  "ev_type ev = EVENT_KEY_RELEASED \<Longrightarrow>
   hook_post_event_flags ev inp = Inr (inp\<lparr>ki_dwFlags := ki_dwFlags inp OR KEYEVENTF_KEYUP\<rparr>)"
  by (simp add: hook_post_event_flags_def event_type_defs)

lemma hook_post_event_Some:
  assumes "hook_post_event_build env ev = Inr (Some inp, entries)"
    and "hook_post_event_flags ev inp = Inr r"
  shows "hook_post_event env ev =
     Inr \<lparr>logged = entries @
            (if SendInput env r = 0 then [log_SendInput_failed (GetLastError env)] else []),
          sent = [r]\<rparr>"
  using assms by (simp add: hook_post_event_def)

lemma hook_post_event_None:
  assumes "hook_post_event_build env ev = Inr (None, entries)"
  shows "hook_post_event env ev = Inr \<lparr>logged = entries, sent = []\<rparr>"
  using assms by (simp add: hook_post_event_def)

lemma hook_post_event_keyboard:
  fixes env :: os_env and ev :: uiohook_event
  defines "wVk \<equiv> (ucast (scancode_to_keycode env (data_keyboard_keycode ev)) :: 16 word)"
  defines "r \<equiv> \<lparr>input_type = INPUT_KEYBOARD, ki_wVk = wVk, ki_wScan = 0,
      ki_dwFlags =
        (if ev_mask ev AND MASK_SHIFT \<noteq> 0 \<and> ucast wVk = VK_UP then KEYEVENTF_EXTENDEDKEY else 0)
        OR (if ev_type ev = EVENT_KEY_PRESSED then KEYEVENTF_KEYDOWN else KEYEVENTF_KEYUP),
      ki_time = 0, mi_dx = 0, mi_dy = 0, mi_mouseData = 0, mi_dwFlags = 0, mi_time = 0\<rparr>"
  assumes tag: "ev_type ev = EVENT_KEY_PRESSED \<or> ev_type ev = EVENT_KEY_RELEASED"
    and block: "calloc_ok env"
  shows "hook_post_event env ev =
     Inr \<lparr>logged =
            (if wVk = 0 then [log_lookup_failed (data_keyboard_keycode ev)] else []) @
            (if SendInput env r = 0 then [log_SendInput_failed (GetLastError env)] else []),
          sent = [r]\<rparr>"
proof -
  note b = build_keyboard [OF tag block]
  from tag show ?thesis
  proof
    assume p: "ev_type ev = EVENT_KEY_PRESSED"
    show ?thesis
      using hook_post_event_Some [OF b flags_key_pressed [OF p]] p
      by (simp add: wVk_def r_def)
  next
    assume p: "ev_type ev = EVENT_KEY_RELEASED"
    then have np: "ev_type ev \<noteq> EVENT_KEY_PRESSED" by (simp add: event_type_defs)
    show ?thesis
      using hook_post_event_Some [OF b flags_key_released [OF p]] np
      by (simp add: wVk_def r_def)
  qed
qed

lemma build_mouse:
  assumes "ev_type ev = EVENT_MOUSE_PRESSED \<or> ev_type ev = EVENT_MOUSE_RELEASED
      \<or> ev_type ev = EVENT_MOUSE_WHEEL \<or> ev_type ev = EVENT_MOUSE_MOVED
      \<or> ev_type ev = EVENT_MOUSE_DRAGGED"
    and "calloc_ok env"
    and "convert_to_relative_position (sint (data_mouse_x ev))
           (uint (word_of_int (GetSystemMetrics env SM_CXSCREEN) :: 16 word)) = Inr dx"
    and "convert_to_relative_position (sint (data_mouse_y ev))
           (uint (word_of_int (GetSystemMetrics env SM_CYSCREEN) :: 16 word)) = Inr dy"
  shows "hook_post_event_build env ev =
     Inr (Some \<lparr>input_type = INPUT_MOUSE, ki_wVk = 0, ki_wScan = 0, ki_dwFlags = 0, ki_time = 0,
                mi_dx = word_of_int dx, mi_dy = word_of_int dy, mi_mouseData = 0,
                mi_dwFlags = 0, mi_time = 0\<rparr>, [])"
proof -
  have nk: "ev_type ev \<noteq> EVENT_KEY_PRESSED" "ev_type ev \<noteq> EVENT_KEY_RELEASED"
    using assms(1) by (auto simp add: event_type_defs)
  show ?thesis
    using assms nk by (simp add: hook_post_event_build_def Let_def calloc_INPUT_def)
qed

lemma build_no_block:
  assumes "\<not> calloc_ok env"
  shows "hook_post_event_build env ev =
     Inr (None,
       if ev_type ev = EVENT_KEY_PRESSED \<or> ev_type ev = EVENT_KEY_RELEASED
        then [log_calloc_failed 103]
        else if ev_type ev = EVENT_MOUSE_PRESSED \<or> ev_type ev = EVENT_MOUSE_RELEASED
          \<or> ev_type ev = EVENT_MOUSE_WHEEL \<or> ev_type ev = EVENT_MOUSE_MOVED
          \<or> ev_type ev = EVENT_MOUSE_DRAGGED
        then [log_calloc_failed 121]
        else if ev_type ev = EVENT_MOUSE_CLICKED \<or> ev_type ev = EVENT_KEY_TYPED
          \<or> ev_type ev = EVENT_HOOK_ENABLED \<or> ev_type ev = EVENT_HOOK_DISABLED
        then []
        else [log_ignoring (ev_type ev)])"
  using assms
  by (simp add: hook_post_event_build_def Let_def)

lemma sint16_range: "- 32768 \<le> sint (x :: 16 word) \<and> sint x \<le> 32767"
  using sint_ge [of x] sint_lt [of x] by simp

lemma build_mouse_steps:
  assumes "ev_type ev = EVENT_MOUSE_PRESSED \<or> ev_type ev = EVENT_MOUSE_RELEASED
      \<or> ev_type ev = EVENT_MOUSE_WHEEL \<or> ev_type ev = EVENT_MOUSE_MOVED
      \<or> ev_type ev = EVENT_MOUSE_DRAGGED"
    and "calloc_ok env"
  shows "hook_post_event_build env ev =
     c_then (convert_to_relative_position (sint (data_mouse_x ev))
               (uint (word_of_int (GetSystemMetrics env SM_CXSCREEN) :: 16 word))) (\<lambda>dx.
     c_then (convert_to_relative_position (sint (data_mouse_y ev))
               (uint (word_of_int (GetSystemMetrics env SM_CYSCREEN) :: 16 word))) (\<lambda>dy.
     Inr (Some \<lparr>input_type = INPUT_MOUSE, ki_wVk = 0, ki_wScan = 0, ki_dwFlags = 0,
                ki_time = 0, mi_dx = word_of_int dx, mi_dy = word_of_int dy, mi_mouseData = 0,
                mi_dwFlags = 0, mi_time = 0\<rparr>, [])))"
proof -
  have nk: "ev_type ev \<noteq> EVENT_KEY_PRESSED" "ev_type ev \<noteq> EVENT_KEY_RELEASED"
    using assms(1) by (auto simp add: event_type_defs)
  show ?thesis
    using assms nk by (simp add: hook_post_event_build_def Let_def calloc_INPUT_def)
qed

lemma hook_post_event_Inl:
  "hook_post_event_build env ev = Inl e \<Longrightarrow> hook_post_event env ev = Inl e"
  by (simp add: hook_post_event_def)

lemma build_ignored:
  assumes "ev_type ev = EVENT_MOUSE_CLICKED \<or> ev_type ev = EVENT_KEY_TYPED
      \<or> ev_type ev = EVENT_HOOK_ENABLED \<or> ev_type ev = EVENT_HOOK_DISABLED"
  shows "hook_post_event_build env ev = Inr (None, [])"
proof -
  have "ev_type ev \<noteq> EVENT_KEY_PRESSED" "ev_type ev \<noteq> EVENT_KEY_RELEASED"
    "ev_type ev \<noteq> EVENT_MOUSE_PRESSED" "ev_type ev \<noteq> EVENT_MOUSE_RELEASED"
    "ev_type ev \<noteq> EVENT_MOUSE_WHEEL" "ev_type ev \<noteq> EVENT_MOUSE_MOVED"
    "ev_type ev \<noteq> EVENT_MOUSE_DRAGGED"
    using assms by (auto simp add: event_type_defs)
  then show ?thesis
    using assms by (simp add: hook_post_event_build_def Let_def)
qed

lemma build_unrecognised:
  assumes "ev_type ev \<noteq> EVENT_KEY_PRESSED" "ev_type ev \<noteq> EVENT_KEY_RELEASED"
    "ev_type ev \<noteq> EVENT_MOUSE_PRESSED" "ev_type ev \<noteq> EVENT_MOUSE_RELEASED"
    "ev_type ev \<noteq> EVENT_MOUSE_WHEEL" "ev_type ev \<noteq> EVENT_MOUSE_MOVED"
    "ev_type ev \<noteq> EVENT_MOUSE_DRAGGED"
    "ev_type ev \<noteq> EVENT_MOUSE_CLICKED" "ev_type ev \<noteq> EVENT_KEY_TYPED"
    "ev_type ev \<noteq> EVENT_HOOK_ENABLED" "ev_type ev \<noteq> EVENT_HOOK_DISABLED"
  shows "hook_post_event_build env ev = Inr (None, [log_ignoring (ev_type ev)])"
  using assms by (simp add: hook_post_event_build_def Let_def)

lemma flags_move:
  assumes "ev_type ev = EVENT_MOUSE_MOVED \<or> ev_type ev = EVENT_MOUSE_DRAGGED"
  shows "hook_post_event_flags ev inp =
     Inr (inp\<lparr>mi_dwFlags := mi_dwFlags inp OR (MOUSEEVENTF_ABSOLUTE OR MOUSEEVENTF_MOVE)\<rparr>)"
proof -
  have "ev_type ev \<noteq> EVENT_KEY_PRESSED" "ev_type ev \<noteq> EVENT_KEY_RELEASED"
    "ev_type ev \<noteq> EVENT_MOUSE_PRESSED" "ev_type ev \<noteq> EVENT_MOUSE_RELEASED"
    "ev_type ev \<noteq> EVENT_MOUSE_WHEEL"
    using assms by (auto simp add: event_type_defs)
  then show ?thesis
    using assms by (auto simp add: hook_post_event_flags_def)
qed

lemma build_move_drag:
  assumes "ev_type m = EVENT_MOUSE_MOVED" "ev_type d = EVENT_MOUSE_DRAGGED"
    and "data_mouse_x m = data_mouse_x d" "data_mouse_y m = data_mouse_y d"
  shows "hook_post_event_build env m = hook_post_event_build env d"
proof (cases "calloc_ok env")
  case True
  then show ?thesis
    using assms by (simp add: build_mouse_steps)
next
  case False
  have "ev_type m \<noteq> EVENT_KEY_PRESSED" "ev_type m \<noteq> EVENT_KEY_RELEASED"
    "ev_type d \<noteq> EVENT_KEY_PRESSED" "ev_type d \<noteq> EVENT_KEY_RELEASED"
    using assms by (simp_all add: event_type_defs)
  then show ?thesis
    using assms False by (simp add: build_no_block)
qed

lemma flags_wheel:
  assumes "ev_type ev = EVENT_MOUSE_WHEEL"
  shows "hook_post_event_flags ev inp =
     c_then (c_mul (uint (data_wheel_amount ev)) (sint (data_wheel_rotation ev))) (\<lambda>turned.
     c_then (c_mul turned WHEEL_DELTA) (\<lambda>delta.
     Inr (inp\<lparr>mi_dwFlags := mi_dwFlags inp OR MOUSEEVENTF_WHEEL,
              mi_mouseData := word_of_int delta\<rparr>)))"
  using assms by (simp add: hook_post_event_flags_def event_type_defs)

lemma sint32_of_int:
  "- 2147483648 \<le> k \<Longrightarrow> k \<le> 2147483647 \<Longrightarrow> sint (word_of_int k :: 32 word) = k"
  by (simp add: sint_sbintrunc' signed_take_bit_int_eq_self)

lemma factor_in_range:
  fixes p :: int
  assumes "- 2147483648 \<le> p * 120" "p * 120 \<le> 2147483647"
  shows "c_int p = Inr p"
proof -
  have "- 2147483648 \<le> p" "p \<le> 2147483647" using assms by linarith+
  then show ?thesis by (rule c_int_in_range)
qed

lemma flags_mouse_pressed:
  assumes "ev_type ev = EVENT_MOUSE_PRESSED"
  shows "hook_post_event_flags ev inp =
     Inr (switch_button MOUSEEVENTF_XDOWN
            MOUSEEVENTF_LEFTDOWN MOUSEEVENTF_RIGHTDOWN MOUSEEVENTF_MIDDLEDOWN
            (data_mouse_button ev) (inp\<lparr>mi_dwFlags := mi_dwFlags inp OR MOUSEEVENTF_XDOWN\<rparr>))"
  using assms by (simp add: hook_post_event_flags_def event_type_defs)

lemma flags_mouse_released:
  assumes "ev_type ev = EVENT_MOUSE_RELEASED"
  shows "hook_post_event_flags ev inp =
     Inr (switch_button MOUSEEVENTF_XUP
            MOUSEEVENTF_LEFTUP MOUSEEVENTF_RIGHTUP MOUSEEVENTF_MIDDLEUP
            (data_mouse_button ev) (inp\<lparr>mi_dwFlags := mi_dwFlags inp OR MOUSEEVENTF_XUP\<rparr>))"
  using assms by (simp add: hook_post_event_flags_def event_type_defs)

lemma switch_button_dwFlags:
  "mi_dwFlags (switch_button xflag left right middle b inp) =
     mi_dwFlags inp OR
       (if b = MOUSE_BUTTON1 then left else if b = MOUSE_BUTTON2 then right
        else if b = MOUSE_BUTTON3 then middle else xflag)"
  by (simp add: switch_button_def Let_def)

lemma switch_button_mouseData:
  "mi_mouseData (switch_button xflag left right middle b inp) =
     (if b = MOUSE_BUTTON1 \<or> b = MOUSE_BUTTON2 \<or> b = MOUSE_BUTTON3 then mi_mouseData inp
      else if b = MOUSE_BUTTON4 then XBUTTON1
      else if b = MOUSE_BUTTON5 then XBUTTON2
      else word_of_int (uint b - 3))"
  by (simp add: switch_button_def Let_def)

lemma uint_button_minus_3:
  fixes b :: "16 word"
  assumes "3 \<le> uint b"
  shows "uint (word_of_int (uint b - 3) :: 32 word) = uint b - 3"
proof -
  have "uint b < 65536" using uint_lt2p [of b] by simp
  then have "take_bit LENGTH(32) (uint b - 3) = uint b - 3"
    using assms by (intro take_bit_int_eq_self) simp_all
  then show ?thesis unfolding uint_word_of_int_eq .
qed

lemma or_and_absorb: "(x OR y) AND x = (x :: 32 word)"
  by (simp add: bit_eq_iff bit_and_iff bit_or_iff)

section \<open>The claims\<close>

subsection \<open>C1: the extended-key flag\<close>

text \<open>
  What the loop over \<^verbatim>\<open>extend_key_table\<close> does: its condition ends it at the first entry
  the key differs from, so only the entry at index 0 can ever match. The record of a key
  event carries \<^verbatim>\<open>KEYEVENTF_EXTENDEDKEY\<close> exactly when the mask has a shift bit and the
  resolved key is \<^verbatim>\<open>VK_UP\<close>.
\<close>

lemma extended_key_flag_only_for_VK_UP:
  assumes "ev_type ev = EVENT_KEY_PRESSED \<or> ev_type ev = EVENT_KEY_RELEASED"
    and "calloc_ok env"
  shows "\<exists>out r. hook_post_event env ev = Inr out \<and> sent out = [r]
      \<and> (ki_dwFlags r AND KEYEVENTF_EXTENDEDKEY = KEYEVENTF_EXTENDEDKEY
           \<longleftrightarrow> ev_mask ev AND MASK_SHIFT \<noteq> 0 \<and> ucast (ki_wVk r) = VK_UP)"
  unfolding hook_post_event_keyboard [OF assms]
  by (simp add: keyeventf_defs)

text \<open>
  C1, at a press of the Down arrow with the left shift held: the key is in the table, the
  mask has the shift bit, and the record submitted has no flag set.
\<close>

theorem shift_down_arrow_not_extended:
  "hook_post_event
     \<lparr>GetSystemMetrics = (\<lambda>nIndex. if nIndex = SM_CXSCREEN then 1920 else 1080),
      scancode_to_keycode = (\<lambda>scancode. if scancode = 0xE050 then VK_DOWN else 0),
      calloc_ok = True, SendInput = (\<lambda>input. 1), GetLastError = 0\<rparr>
     \<lparr>ev_type = EVENT_KEY_PRESSED, ev_mask = MASK_SHIFT_L, data_keyboard_keycode = 0xE050,
      data_mouse_button = 0, data_mouse_x = 0, data_mouse_y = 0, data_wheel_amount = 0,
      data_wheel_rotation = 0\<rparr>
   = Inr \<lparr>logged = [],
          sent = [\<lparr>input_type = INPUT_KEYBOARD, ki_wVk = 0x28, ki_wScan = 0,
                   ki_dwFlags = 0, ki_time = 0, mi_dx = 0, mi_dy = 0, mi_mouseData = 0,
                   mi_dwFlags = 0, mi_time = 0\<rparr>]\<rparr>
   \<and> MASK_SHIFT_L AND MASK_SHIFT \<noteq> 0 \<and> VK_DOWN \<in> set extend_key_table"
  by (simp add: hook_post_event_keyboard vk_defs keyeventf_defs MASK_SHIFT_def
      MASK_SHIFT_L_def MASK_SHIFT_R_def extend_key_table_def)

subsection \<open>C2: the value of the normalisation\<close>

text \<open>
  C2, as the code has it. For a screen size \<open>s > 0\<close> and a coordinate \<open>c\<close> of the
  \<^verbatim>\<open>int16_t\<close> range (the type of \<^verbatim>\<open>data.mouse.x\<close>, so \<open>c * 65536\<close> fits an int):
  for \<open>c > 0\<close> the function returns \<open>floor (c * 65536 / s) + 1\<close>; for \<open>c < 0\<close> it returns
  the quotient rounded towards zero, minus one, which is \<open>floor (c * 65536 / s) - 1\<close> when
  \<open>s\<close> divides \<open>c * 65536\<close> and \<open>floor (c * 65536 / s)\<close> when it does not. The one pair left
  out, \<open>c = - 32768\<close> with \<open>s = 1\<close>, overflows int in the final subtraction.
\<close>

theorem convert_to_relative_position_value:
  assumes "0 < s"
  shows "(0 < c \<and> c \<le> 32767 \<longrightarrow>
            convert_to_relative_position c s = Inr (c * 65536 div s + 1))
       \<and> (- 32768 \<le> c \<and> c < 0 \<and> (c \<noteq> - 32768 \<or> s \<noteq> 1) \<longrightarrow>
            convert_to_relative_position c s =
              Inr (c * 65536 div s + (if s dvd c * 65536 then 0 else 1) - 1))"
proof (intro conjI impI)
  assume "0 < c \<and> c \<le> 32767"
  then show "convert_to_relative_position c s = Inr (c * 65536 div s + 1)"
    using assms by (simp add: convert_positive)
next
  assume h: "- 32768 \<le> c \<and> c < 0 \<and> (c \<noteq> - 32768 \<or> s \<noteq> 1)"
  then have "convert_to_relative_position c s = Inr (- (- c * 65536 div s) - 1)"
    using assms by (intro convert_negative) simp_all
  moreover have "- (- (c * 65536) div s) = c * 65536 div s + (if s dvd c * 65536 then 0 else 1)"
    using assms by (rule neg_div_floor)
  ultimately show "convert_to_relative_position c s =
      Inr (c * 65536 div s + (if s dvd c * 65536 then 0 else 1) - 1)"
    by simp
qed

text \<open>The theorem at \<open>(100, 1920)\<close>, \<open>(- 1, 3)\<close> and \<open>(- 3, 3)\<close>.\<close>

theorem convert_to_relative_position_value_witness:
  "(0::int) < 1920 \<and> convert_to_relative_position 100 1920 = Inr 3414
   \<and> (0::int) < 3 \<and> convert_to_relative_position (- 1) 3 = Inr (- 21846)
   \<and> convert_to_relative_position (- 3) 3 = Inr (- 65537)"
  using convert_to_relative_position_value [of 1920 100]
    convert_to_relative_position_value [of 3 "- 1"]
    convert_to_relative_position_value [of 3 "- 3"]
  by simp

text \<open>
  C2 as stated fails for a negative coordinate whose scaled value the screen size does
  not divide: at \<open>c = - 1\<close>, \<open>s = 3\<close> the code returns \<open>- 21845 - 1 = - 21846\<close>, and
  \<open>floor (- 65536 / 3) - 1\<close> is \<open>- 21847\<close>.
\<close>

theorem convert_negative_not_floor:
  "convert_to_relative_position (- 1) 3 \<noteq> Inr ((- 1) * 65536 div 3 - 1)"
  by (simp add: convert_to_relative_position_def c_mul_def c_div_def c_add_def c_int_def
      INT_MIN_def INT_MAX_def MAX_WINDOWS_COORD_VALUE_def signed_divide_int_def)

subsection \<open>C3: key-down and key-up\<close>

text \<open>
  C3, as the code has it. \<^verbatim>\<open>KEYEVENTF_KEYUP\<close> is the bit \<open>0x0002\<close>; the source defines
  \<^verbatim>\<open>KEYEVENTF_KEYDOWN\<close> as \<open>0x0000\<close>, so or-ing it into \<^verbatim>\<open>dwFlags\<close> sets no bit, and a
  record says key-down only by having the key-up bit clear. For every key press or
  release, once the record is allocated, exactly one record is submitted; its key-up bit
  is clear exactly when the event is a press and set exactly when it is a release. So
  every keyboard record submitted is in exactly one of the two states.
\<close>

theorem key_down_or_key_up:
  assumes "ev_type ev = EVENT_KEY_PRESSED \<or> ev_type ev = EVENT_KEY_RELEASED"
    and "calloc_ok env"
  shows "\<exists>out r. hook_post_event env ev = Inr out \<and> sent out = [r]
      \<and> (ki_dwFlags r AND KEYEVENTF_KEYUP = 0 \<longleftrightarrow> ev_type ev = EVENT_KEY_PRESSED)
      \<and> (ki_dwFlags r AND KEYEVENTF_KEYUP = KEYEVENTF_KEYUP
            \<longleftrightarrow> ev_type ev = EVENT_KEY_RELEASED)
      \<and> KEYEVENTF_KEYDOWN = 0"
  unfolding hook_post_event_keyboard [OF assms]
  using assms(1) by (auto simp add: keyeventf_defs event_type_defs)

text \<open>The theorem at a press and at a release of the key A.\<close>

theorem key_down_or_key_up_witness:
  "(\<exists>out r. hook_post_event
       \<lparr>GetSystemMetrics = (\<lambda>nIndex. 0), scancode_to_keycode = (\<lambda>scancode. 0x41),
        calloc_ok = True, SendInput = (\<lambda>input. 1), GetLastError = 0\<rparr>
       \<lparr>ev_type = EVENT_KEY_PRESSED, ev_mask = 0, data_keyboard_keycode = 30,
        data_mouse_button = 0, data_mouse_x = 0, data_mouse_y = 0, data_wheel_amount = 0,
        data_wheel_rotation = 0\<rparr> = Inr out
      \<and> sent out = [r] \<and> ki_dwFlags r AND KEYEVENTF_KEYUP = 0)
   \<and> (\<exists>out r. hook_post_event
       \<lparr>GetSystemMetrics = (\<lambda>nIndex. 0), scancode_to_keycode = (\<lambda>scancode. 0x41),
        calloc_ok = True, SendInput = (\<lambda>input. 1), GetLastError = 0\<rparr>
       \<lparr>ev_type = EVENT_KEY_RELEASED, ev_mask = 0, data_keyboard_keycode = 30,
        data_mouse_button = 0, data_mouse_x = 0, data_mouse_y = 0, data_wheel_amount = 0,
        data_wheel_rotation = 0\<rparr> = Inr out
      \<and> sent out = [r] \<and> ki_dwFlags r AND KEYEVENTF_KEYUP = KEYEVENTF_KEYUP)"
  using key_down_or_key_up
    [of "\<lparr>ev_type = EVENT_KEY_PRESSED, ev_mask = 0, data_keyboard_keycode = 30,
        data_mouse_button = 0, data_mouse_x = 0, data_mouse_y = 0, data_wheel_amount = 0,
        data_wheel_rotation = 0\<rparr>"
     "\<lparr>GetSystemMetrics = (\<lambda>nIndex. 0), scancode_to_keycode = (\<lambda>scancode. 0x41),
        calloc_ok = True, SendInput = (\<lambda>input. 1), GetLastError = 0\<rparr>"]
    key_down_or_key_up
    [of "\<lparr>ev_type = EVENT_KEY_RELEASED, ev_mask = 0, data_keyboard_keycode = 30,
        data_mouse_button = 0, data_mouse_x = 0, data_mouse_y = 0, data_wheel_amount = 0,
        data_wheel_rotation = 0\<rparr>"
     "\<lparr>GetSystemMetrics = (\<lambda>nIndex. 0), scancode_to_keycode = (\<lambda>scancode. 0x41),
        calloc_ok = True, SendInput = (\<lambda>input. 1), GetLastError = 0\<rparr>"]
  by auto

text \<open>
  C3 as stated, with a key-down flag that is set in the record, fails: the record of a
  press of the key A, no modifier held, goes to \<^verbatim>\<open>SendInput\<close> with \<^verbatim>\<open>dwFlags = 0\<close>, no flag
  set at all. And if a flag \<open>F\<close> counts as set when \<^verbatim>\<open>dwFlags & F\<close> equals \<open>F\<close>, the record
  of the release, whose \<^verbatim>\<open>dwFlags\<close> are \<^verbatim>\<open>KEYEVENTF_KEYUP\<close>, has both flags set, not exactly
  one.
\<close>

theorem key_press_sets_no_flag:
  "hook_post_event
       \<lparr>GetSystemMetrics = (\<lambda>nIndex. 0), scancode_to_keycode = (\<lambda>scancode. 0x41),
        calloc_ok = True, SendInput = (\<lambda>input. 1), GetLastError = 0\<rparr>
       \<lparr>ev_type = EVENT_KEY_PRESSED, ev_mask = 0, data_keyboard_keycode = 30,
        data_mouse_button = 0, data_mouse_x = 0, data_mouse_y = 0, data_wheel_amount = 0,
        data_wheel_rotation = 0\<rparr>
    = Inr \<lparr>logged = [],
           sent = [\<lparr>input_type = INPUT_KEYBOARD, ki_wVk = 0x41, ki_wScan = 0,
                    ki_dwFlags = 0, ki_time = 0, mi_dx = 0, mi_dy = 0, mi_mouseData = 0,
                    mi_dwFlags = 0, mi_time = 0\<rparr>]\<rparr>
   \<and> hook_post_event
       \<lparr>GetSystemMetrics = (\<lambda>nIndex. 0), scancode_to_keycode = (\<lambda>scancode. 0x41),
        calloc_ok = True, SendInput = (\<lambda>input. 1), GetLastError = 0\<rparr>
       \<lparr>ev_type = EVENT_KEY_RELEASED, ev_mask = 0, data_keyboard_keycode = 30,
        data_mouse_button = 0, data_mouse_x = 0, data_mouse_y = 0, data_wheel_amount = 0,
        data_wheel_rotation = 0\<rparr>
    = Inr \<lparr>logged = [],
           sent = [\<lparr>input_type = INPUT_KEYBOARD, ki_wVk = 0x41, ki_wScan = 0,
                    ki_dwFlags = KEYEVENTF_KEYUP, ki_time = 0, mi_dx = 0, mi_dy = 0,
                    mi_mouseData = 0, mi_dwFlags = 0, mi_time = 0\<rparr>]\<rparr>
   \<and> KEYEVENTF_KEYUP AND KEYEVENTF_KEYDOWN = KEYEVENTF_KEYDOWN
   \<and> KEYEVENTF_KEYUP AND KEYEVENTF_KEYUP = KEYEVENTF_KEYUP"
  by (simp add: hook_post_event_keyboard keyeventf_defs event_type_defs vk_defs)

subsection \<open>C4: the button ordinals\<close>

text \<open>
  C4. For every \<^verbatim>\<open>EVENT_MOUSE_PRESSED\<close> or \<^verbatim>\<open>EVENT_MOUSE_RELEASED\<close> event, once the record is
  allocated and both coordinates convert, exactly one record is submitted. Its \<^verbatim>\<open>dwFlags\<close>
  always hold the generic extra-button transition (\<^verbatim>\<open>MOUSEEVENTF_XDOWN\<close> for a press,
  \<^verbatim>\<open>MOUSEEVENTF_XUP\<close> for a release). With it: button 1 adds the left transition, button 2
  the right one, button 3 the middle one, and \<^verbatim>\<open>mouseData\<close> stays zero; button 4 adds no
  flag and sets \<^verbatim>\<open>mouseData\<close> to \<^verbatim>\<open>XBUTTON1\<close>, button 5 to \<^verbatim>\<open>XBUTTON2\<close>; every button
  above 5 adds no flag and sets \<^verbatim>\<open>mouseData\<close> to the ordinal minus three.
\<close>

theorem button_ordinal_mapping:
  fixes env :: os_env and ev :: uiohook_event
  defines "b \<equiv> data_mouse_button ev"
  defines "xflag \<equiv>
    (if ev_type ev = EVENT_MOUSE_PRESSED then MOUSEEVENTF_XDOWN else MOUSEEVENTF_XUP)"
  defines "left \<equiv>
    (if ev_type ev = EVENT_MOUSE_PRESSED then MOUSEEVENTF_LEFTDOWN else MOUSEEVENTF_LEFTUP)"
  defines "right \<equiv>
    (if ev_type ev = EVENT_MOUSE_PRESSED then MOUSEEVENTF_RIGHTDOWN else MOUSEEVENTF_RIGHTUP)"
  defines "middle \<equiv>
    (if ev_type ev = EVENT_MOUSE_PRESSED then MOUSEEVENTF_MIDDLEDOWN else MOUSEEVENTF_MIDDLEUP)"
  assumes tag: "ev_type ev = EVENT_MOUSE_PRESSED \<or> ev_type ev = EVENT_MOUSE_RELEASED"
    and block: "calloc_ok env"
    and cx: "convert_to_relative_position (sint (data_mouse_x ev))
           (uint (word_of_int (GetSystemMetrics env SM_CXSCREEN) :: 16 word)) = Inr dx"
    and cy: "convert_to_relative_position (sint (data_mouse_y ev))
           (uint (word_of_int (GetSystemMetrics env SM_CYSCREEN) :: 16 word)) = Inr dy"
  shows "\<exists>out r. hook_post_event env ev = Inr out \<and> sent out = [r]
      \<and> mi_dwFlags r AND xflag = xflag
      \<and> (b = MOUSE_BUTTON1 \<longrightarrow> mi_dwFlags r = xflag OR left \<and> mi_mouseData r = 0)
      \<and> (b = MOUSE_BUTTON2 \<longrightarrow> mi_dwFlags r = xflag OR right \<and> mi_mouseData r = 0)
      \<and> (b = MOUSE_BUTTON3 \<longrightarrow> mi_dwFlags r = xflag OR middle \<and> mi_mouseData r = 0)
      \<and> (b = MOUSE_BUTTON4 \<longrightarrow> mi_dwFlags r = xflag \<and> mi_mouseData r = XBUTTON1)
      \<and> (b = MOUSE_BUTTON5 \<longrightarrow> mi_dwFlags r = xflag \<and> mi_mouseData r = XBUTTON2)
      \<and> (5 < uint b \<longrightarrow> mi_dwFlags r = xflag \<and> uint (mi_mouseData r) = uint b - 3)"
proof -
  let ?base = "\<lparr>input_type = INPUT_MOUSE, ki_wVk = 0, ki_wScan = 0, ki_dwFlags = 0,
      ki_time = 0, mi_dx = word_of_int dx, mi_dy = word_of_int dy, mi_mouseData = 0,
      mi_dwFlags = 0, mi_time = 0\<rparr>"
  let ?r = "switch_button xflag left right middle b (?base\<lparr>mi_dwFlags := xflag\<rparr>)"
  have build: "hook_post_event_build env ev = Inr (Some ?base, [])"
    using tag block cx cy by (intro build_mouse) auto
  have flags: "hook_post_event_flags ev ?base = Inr ?r"
  proof (rule disjE [OF tag])
    assume p: "ev_type ev = EVENT_MOUSE_PRESSED"
    then show ?thesis
      by (simp add: flags_mouse_pressed xflag_def left_def right_def middle_def b_def)
  next
    assume p: "ev_type ev = EVENT_MOUSE_RELEASED"
    then have "ev_type ev \<noteq> EVENT_MOUSE_PRESSED" by (simp add: event_type_defs)
    with p show ?thesis
      by (simp add: flags_mouse_released xflag_def left_def right_def middle_def b_def)
  qed
  have out: "hook_post_event env ev =
      Inr \<lparr>logged = (if SendInput env ?r = 0
                      then [log_SendInput_failed (GetLastError env)] else []),
           sent = [?r]\<rparr>"
    using hook_post_event_Some [OF build flags] by simp
  have fl: "mi_dwFlags ?r = xflag OR
       (if b = MOUSE_BUTTON1 then left else if b = MOUSE_BUTTON2 then right
        else if b = MOUSE_BUTTON3 then middle else xflag)"
    by (simp add: switch_button_dwFlags)
  have md: "mi_mouseData ?r =
     (if b = MOUSE_BUTTON1 \<or> b = MOUSE_BUTTON2 \<or> b = MOUSE_BUTTON3 then 0
      else if b = MOUSE_BUTTON4 then XBUTTON1
      else if b = MOUSE_BUTTON5 then XBUTTON2
      else word_of_int (uint b - 3))"
    by (simp only: switch_button_mouseData) simp
  have always: "mi_dwFlags ?r AND xflag = xflag"
    unfolding fl by (rule or_and_absorb)
  have b1: "b = MOUSE_BUTTON1 \<longrightarrow> mi_dwFlags ?r = xflag OR left \<and> mi_mouseData ?r = 0"
    unfolding fl md by simp
  have b2: "b = MOUSE_BUTTON2 \<longrightarrow> mi_dwFlags ?r = xflag OR right \<and> mi_mouseData ?r = 0"
    unfolding fl md by (simp add: mouse_button_defs)
  have b3: "b = MOUSE_BUTTON3 \<longrightarrow> mi_dwFlags ?r = xflag OR middle \<and> mi_mouseData ?r = 0"
    unfolding fl md by (simp add: mouse_button_defs)
  have b4: "b = MOUSE_BUTTON4 \<longrightarrow> mi_dwFlags ?r = xflag \<and> mi_mouseData ?r = XBUTTON1"
    unfolding fl md by (simp add: mouse_button_defs)
  have b5: "b = MOUSE_BUTTON5 \<longrightarrow> mi_dwFlags ?r = xflag \<and> mi_mouseData ?r = XBUTTON2"
    unfolding fl md by (simp add: mouse_button_defs)
  have b6: "5 < uint b \<longrightarrow> mi_dwFlags ?r = xflag \<and> uint (mi_mouseData ?r) = uint b - 3"
  proof
    assume big: "5 < uint b"
    then have ne: "b \<noteq> MOUSE_BUTTON1" "b \<noteq> MOUSE_BUTTON2" "b \<noteq> MOUSE_BUTTON3"
      "b \<noteq> MOUSE_BUTTON4" "b \<noteq> MOUSE_BUTTON5"
      by (auto simp add: mouse_button_defs)
    have "uint (word_of_int (uint b - 3) :: 32 word) = uint b - 3"
      using big by (intro uint_button_minus_3) simp
    with ne show "mi_dwFlags ?r = xflag \<and> uint (mi_mouseData ?r) = uint b - 3"
      unfolding fl md by (simp only: if_False simp_thms or.idem)
  qed
  show ?thesis
    unfolding out using always b1 b2 b3 b4 b5 b6 by simp
qed

text \<open>
  The theorem at a press of button 6 (auxiliary data 3), a release of button 7 (auxiliary
  data 4), a press of button 1 and a release of button 4, at \<open>(100, 50)\<close> on a display of
  \<open>1920 \<times> 1080\<close>.
\<close>

theorem button_ordinal_mapping_witness:
  "(\<exists>out r. hook_post_event
       \<lparr>GetSystemMetrics = (\<lambda>nIndex. if nIndex = SM_CXSCREEN then 1920 else 1080),
        scancode_to_keycode = (\<lambda>scancode. 0), calloc_ok = True, SendInput = (\<lambda>input. 1),
        GetLastError = 0\<rparr>
       \<lparr>ev_type = EVENT_MOUSE_PRESSED, ev_mask = 0, data_keyboard_keycode = 0,
        data_mouse_button = 6, data_mouse_x = 100, data_mouse_y = 50, data_wheel_amount = 0,
        data_wheel_rotation = 0\<rparr> = Inr out
      \<and> sent out = [r] \<and> mi_dwFlags r = MOUSEEVENTF_XDOWN \<and> uint (mi_mouseData r) = 3)
   \<and> (\<exists>out r. hook_post_event
       \<lparr>GetSystemMetrics = (\<lambda>nIndex. if nIndex = SM_CXSCREEN then 1920 else 1080),
        scancode_to_keycode = (\<lambda>scancode. 0), calloc_ok = True, SendInput = (\<lambda>input. 1),
        GetLastError = 0\<rparr>
       \<lparr>ev_type = EVENT_MOUSE_RELEASED, ev_mask = 0, data_keyboard_keycode = 0,
        data_mouse_button = 7, data_mouse_x = 100, data_mouse_y = 50, data_wheel_amount = 0,
        data_wheel_rotation = 0\<rparr> = Inr out
      \<and> sent out = [r] \<and> mi_dwFlags r = MOUSEEVENTF_XUP \<and> uint (mi_mouseData r) = 4)
   \<and> (\<exists>out r. hook_post_event
       \<lparr>GetSystemMetrics = (\<lambda>nIndex. if nIndex = SM_CXSCREEN then 1920 else 1080),
        scancode_to_keycode = (\<lambda>scancode. 0), calloc_ok = True, SendInput = (\<lambda>input. 1),
        GetLastError = 0\<rparr>
       \<lparr>ev_type = EVENT_MOUSE_PRESSED, ev_mask = 0, data_keyboard_keycode = 0,
        data_mouse_button = 1, data_mouse_x = 100, data_mouse_y = 50, data_wheel_amount = 0,
        data_wheel_rotation = 0\<rparr> = Inr out
      \<and> sent out = [r] \<and> mi_dwFlags r = MOUSEEVENTF_XDOWN OR MOUSEEVENTF_LEFTDOWN \<and> mi_mouseData r = 0)
   \<and> (\<exists>out r. hook_post_event
       \<lparr>GetSystemMetrics = (\<lambda>nIndex. if nIndex = SM_CXSCREEN then 1920 else 1080),
        scancode_to_keycode = (\<lambda>scancode. 0), calloc_ok = True, SendInput = (\<lambda>input. 1),
        GetLastError = 0\<rparr>
       \<lparr>ev_type = EVENT_MOUSE_RELEASED, ev_mask = 0, data_keyboard_keycode = 0,
        data_mouse_button = 4, data_mouse_x = 100, data_mouse_y = 50, data_wheel_amount = 0,
        data_wheel_rotation = 0\<rparr> = Inr out
      \<and> sent out = [r] \<and> mi_dwFlags r = MOUSEEVENTF_XUP \<and> mi_mouseData r = XBUTTON1)"
proof -
  have x: "convert_to_relative_position 100 1920 = Inr 3414"
    by (simp add: convert_positive)
  have y: "convert_to_relative_position 50 1080 = Inr 3035"
    by (simp add: convert_positive)
  show ?thesis
    using x y
      button_ordinal_mapping
      [where env = "\<lparr>GetSystemMetrics = (\<lambda>nIndex. if nIndex = SM_CXSCREEN then 1920 else 1080),
        scancode_to_keycode = (\<lambda>scancode. 0), calloc_ok = True, SendInput = (\<lambda>input. 1),
        GetLastError = 0\<rparr>"
         and ev = "\<lparr>ev_type = EVENT_MOUSE_PRESSED, ev_mask = 0, data_keyboard_keycode = 0,
        data_mouse_button = 6, data_mouse_x = 100, data_mouse_y = 50, data_wheel_amount = 0,
        data_wheel_rotation = 0\<rparr>"
         and dx = 3414 and dy = 3035]
      button_ordinal_mapping
      [where env = "\<lparr>GetSystemMetrics = (\<lambda>nIndex. if nIndex = SM_CXSCREEN then 1920 else 1080),
        scancode_to_keycode = (\<lambda>scancode. 0), calloc_ok = True, SendInput = (\<lambda>input. 1),
        GetLastError = 0\<rparr>"
         and ev = "\<lparr>ev_type = EVENT_MOUSE_RELEASED, ev_mask = 0, data_keyboard_keycode = 0,
        data_mouse_button = 7, data_mouse_x = 100, data_mouse_y = 50, data_wheel_amount = 0,
        data_wheel_rotation = 0\<rparr>"
         and dx = 3414 and dy = 3035]
      button_ordinal_mapping
      [where env = "\<lparr>GetSystemMetrics = (\<lambda>nIndex. if nIndex = SM_CXSCREEN then 1920 else 1080),
        scancode_to_keycode = (\<lambda>scancode. 0), calloc_ok = True, SendInput = (\<lambda>input. 1),
        GetLastError = 0\<rparr>"
         and ev = "\<lparr>ev_type = EVENT_MOUSE_PRESSED, ev_mask = 0, data_keyboard_keycode = 0,
        data_mouse_button = 1, data_mouse_x = 100, data_mouse_y = 50, data_wheel_amount = 0,
        data_wheel_rotation = 0\<rparr>"
         and dx = 3414 and dy = 3035]
      button_ordinal_mapping
      [where env = "\<lparr>GetSystemMetrics = (\<lambda>nIndex. if nIndex = SM_CXSCREEN then 1920 else 1080),
        scancode_to_keycode = (\<lambda>scancode. 0), calloc_ok = True, SendInput = (\<lambda>input. 1),
        GetLastError = 0\<rparr>"
         and ev = "\<lparr>ev_type = EVENT_MOUSE_RELEASED, ev_mask = 0, data_keyboard_keycode = 0,
        data_mouse_button = 4, data_mouse_x = 100, data_mouse_y = 50, data_wheel_amount = 0,
        data_wheel_rotation = 0\<rparr>"
         and dx = 3414 and dy = 3035]
    by (auto simp add: SM_CXSCREEN_def SM_CYSCREEN_def event_type_defs mouse_button_defs)
qed

subsection \<open>C5: the wheel\<close>

text \<open>
  C5, as the code has it. For a \<^verbatim>\<open>EVENT_MOUSE_WHEEL\<close> event, once the record is allocated
  and both coordinates convert: if \<open>amount * rotation * 120\<close> lies in the range of int,
  exactly one record is submitted, its \<^verbatim>\<open>dwFlags\<close> are \<^verbatim>\<open>MOUSEEVENTF_WHEEL\<close> and its
  \<^verbatim>\<open>mouseData\<close>, read as a signed 32-bit value, is \<open>amount * rotation * WHEEL_DELTA\<close>,
  sign included. \<open>amount\<close> is the \<^verbatim>\<open>uint16_t\<close> and \<open>rotation\<close> the \<^verbatim>\<open>int16_t\<close> of
  \<^verbatim>\<open>data.wheel\<close>.
\<close>

theorem wheel_delta_in_range:
  assumes "ev_type ev = EVENT_MOUSE_WHEEL" and "calloc_ok env"
    and "convert_to_relative_position (sint (data_mouse_x ev))
           (uint (word_of_int (GetSystemMetrics env SM_CXSCREEN) :: 16 word)) = Inr dx"
    and "convert_to_relative_position (sint (data_mouse_y ev))
           (uint (word_of_int (GetSystemMetrics env SM_CYSCREEN) :: 16 word)) = Inr dy"
    and "INT_MIN \<le> uint (data_wheel_amount ev) * sint (data_wheel_rotation ev) * 120"
    and "uint (data_wheel_amount ev) * sint (data_wheel_rotation ev) * 120 \<le> INT_MAX"
  shows "\<exists>out r. hook_post_event env ev = Inr out \<and> sent out = [r]
      \<and> mi_dwFlags r = MOUSEEVENTF_WHEEL
      \<and> sint (mi_mouseData r)
          = uint (data_wheel_amount ev) * sint (data_wheel_rotation ev) * WHEEL_DELTA
      \<and> mi_dx r = word_of_int dx \<and> mi_dy r = word_of_int dy"
proof -
  define p where "p = uint (data_wheel_amount ev) * sint (data_wheel_rotation ev)"
  have range: "- 2147483648 \<le> p * 120" "p * 120 \<le> 2147483647"
    using assms(5,6) by (simp_all add: p_def INT_MIN_def INT_MAX_def)
  have b: "hook_post_event_build env ev =
     Inr (Some \<lparr>input_type = INPUT_MOUSE, ki_wVk = 0, ki_wScan = 0, ki_dwFlags = 0, ki_time = 0,
                mi_dx = word_of_int dx, mi_dy = word_of_int dy, mi_mouseData = 0,
                mi_dwFlags = 0, mi_time = 0\<rparr>, [])"
    using assms(1-4) by (intro build_mouse) simp_all
  have f: "hook_post_event_flags ev inp =
      Inr (inp\<lparr>mi_dwFlags := mi_dwFlags inp OR MOUSEEVENTF_WHEEL,
               mi_mouseData := word_of_int (p * 120)\<rparr>)" for inp
  proof -
    have m1: "c_mul (uint (data_wheel_amount ev)) (sint (data_wheel_rotation ev)) = Inr p"
      using factor_in_range [OF range] by (simp add: c_mul_def p_def)
    have m2: "c_mul p WHEEL_DELTA = Inr (p * 120)"
      using range by (simp add: c_mul_def WHEEL_DELTA_def c_int_in_range)
    show ?thesis
      by (simp add: flags_wheel [OF assms(1)] m1 m2)
  qed
  show ?thesis
    using hook_post_event_Some [OF b f] sint32_of_int [OF range]
    by (simp add: p_def WHEEL_DELTA_def)
qed

text \<open>
  The theorem at the two examples of the claim: one notch backwards gives \<open>- 120\<close>, three
  notches forwards give \<open>360\<close>.
\<close>

theorem wheel_delta_in_range_witness:
  "(\<exists>out r. hook_post_event
       \<lparr>GetSystemMetrics = (\<lambda>nIndex. if nIndex = SM_CXSCREEN then 1920 else 1080),
        scancode_to_keycode = (\<lambda>scancode. 0), calloc_ok = True, SendInput = (\<lambda>input. 1),
        GetLastError = 0\<rparr>
       \<lparr>ev_type = EVENT_MOUSE_WHEEL, ev_mask = 0, data_keyboard_keycode = 0,
        data_mouse_button = 0, data_mouse_x = 100, data_mouse_y = 50, data_wheel_amount = 1,
        data_wheel_rotation = - 1\<rparr> = Inr out
      \<and> sent out = [r] \<and> mi_dwFlags r = MOUSEEVENTF_WHEEL \<and> sint (mi_mouseData r) = - 120)
   \<and> (\<exists>out r. hook_post_event
       \<lparr>GetSystemMetrics = (\<lambda>nIndex. if nIndex = SM_CXSCREEN then 1920 else 1080),
        scancode_to_keycode = (\<lambda>scancode. 0), calloc_ok = True, SendInput = (\<lambda>input. 1),
        GetLastError = 0\<rparr>
       \<lparr>ev_type = EVENT_MOUSE_WHEEL, ev_mask = 0, data_keyboard_keycode = 0,
        data_mouse_button = 0, data_mouse_x = 100, data_mouse_y = 50, data_wheel_amount = 3,
        data_wheel_rotation = 1\<rparr> = Inr out
      \<and> sent out = [r] \<and> mi_dwFlags r = MOUSEEVENTF_WHEEL \<and> sint (mi_mouseData r) = 360)"
proof -
  have x: "convert_to_relative_position 100 1920 = Inr 3414"
    by (simp add: convert_positive)
  have y: "convert_to_relative_position 50 1080 = Inr 3035"
    by (simp add: convert_positive)
  show ?thesis
    using x y
      wheel_delta_in_range
      [of "\<lparr>ev_type = EVENT_MOUSE_WHEEL, ev_mask = 0, data_keyboard_keycode = 0,
        data_mouse_button = 0, data_mouse_x = 100, data_mouse_y = 50, data_wheel_amount = 1,
        data_wheel_rotation = - 1\<rparr>"
       "\<lparr>GetSystemMetrics = (\<lambda>nIndex. if nIndex = SM_CXSCREEN then 1920 else 1080),
        scancode_to_keycode = (\<lambda>scancode. 0), calloc_ok = True, SendInput = (\<lambda>input. 1),
        GetLastError = 0\<rparr>" 3414 3035]
      wheel_delta_in_range
      [of "\<lparr>ev_type = EVENT_MOUSE_WHEEL, ev_mask = 0, data_keyboard_keycode = 0,
        data_mouse_button = 0, data_mouse_x = 100, data_mouse_y = 50, data_wheel_amount = 3,
        data_wheel_rotation = 1\<rparr>"
       "\<lparr>GetSystemMetrics = (\<lambda>nIndex. if nIndex = SM_CXSCREEN then 1920 else 1080),
        scancode_to_keycode = (\<lambda>scancode. 0), calloc_ok = True, SendInput = (\<lambda>input. 1),
        GetLastError = 0\<rparr>" 3414 3035]
    by (auto simp add: SM_CXSCREEN_def SM_CYSCREEN_def INT_MIN_def INT_MAX_def WHEEL_DELTA_def)
qed

text \<open>
  C5 as stated, for every wheel event, fails where the product leaves the range of int:
  with \<open>amount = 65535\<close> and \<open>rotation = 32767\<close> the product \<open>65535 * 32767\<close> still fits,
  the multiplication by \<^verbatim>\<open>WHEEL_DELTA\<close> overflows, which is undefined in C, and no 32-bit
  field holds \<open>65535 * 32767 * 120\<close> in any case.
\<close>

theorem wheel_delta_overflows:
  "hook_post_event
     \<lparr>GetSystemMetrics = (\<lambda>nIndex. if nIndex = SM_CXSCREEN then 1920 else 1080),
      scancode_to_keycode = (\<lambda>scancode. 0), calloc_ok = True, SendInput = (\<lambda>input. 1),
      GetLastError = 0\<rparr>
     \<lparr>ev_type = EVENT_MOUSE_WHEEL, ev_mask = 0, data_keyboard_keycode = 0,
      data_mouse_button = 0, data_mouse_x = 100, data_mouse_y = 50,
      data_wheel_amount = 65535, data_wheel_rotation = 32767\<rparr>
   = Inl SignedOverflow"
proof -
  let ?env = "\<lparr>GetSystemMetrics = (\<lambda>nIndex. if nIndex = SM_CXSCREEN then 1920 else 1080),
      scancode_to_keycode = (\<lambda>scancode. 0), calloc_ok = True, SendInput = (\<lambda>input. 1),
      GetLastError = 0\<rparr>"
  let ?ev = "\<lparr>ev_type = EVENT_MOUSE_WHEEL, ev_mask = 0, data_keyboard_keycode = 0,
      data_mouse_button = 0, data_mouse_x = 100, data_mouse_y = 50,
      data_wheel_amount = 65535, data_wheel_rotation = 32767\<rparr>"
  have x: "convert_to_relative_position 100 1920 = Inr 3414"
    by (simp add: convert_positive)
  have y: "convert_to_relative_position 50 1080 = Inr 3035"
    by (simp add: convert_positive)
  have b: "hook_post_event_build ?env ?ev =
     Inr (Some \<lparr>input_type = INPUT_MOUSE, ki_wVk = 0, ki_wScan = 0, ki_dwFlags = 0, ki_time = 0,
                mi_dx = word_of_int 3414, mi_dy = word_of_int 3035, mi_mouseData = 0,
                mi_dwFlags = 0, mi_time = 0\<rparr>, [])"
    using x y by (intro build_mouse) (simp_all add: SM_CXSCREEN_def SM_CYSCREEN_def)
  have f: "hook_post_event_flags ?ev inp = Inl SignedOverflow" for inp
    by (simp add: flags_wheel c_mul_def c_int_def INT_MIN_def INT_MAX_def WHEEL_DELTA_def)
  show ?thesis
    unfolding hook_post_event_def b by (simp add: f)
qed

subsection \<open>C6: the ignored tags and the unrecognised ones\<close>

text \<open>
  C6. For the tags \<^verbatim>\<open>EVENT_MOUSE_CLICKED\<close>, \<^verbatim>\<open>EVENT_KEY_TYPED\<close>, \<^verbatim>\<open>EVENT_HOOK_ENABLED\<close>
  and \<^verbatim>\<open>EVENT_HOOK_DISABLED\<close> the call builds no record, never calls \<^verbatim>\<open>SendInput\<close> and
  logs nothing. For a tag that is none of the eleven of \<^verbatim>\<open>event_type\<close> it builds no
  record and never calls \<^verbatim>\<open>SendInput\<close> either, and logs exactly one entry, at level
  WARN, whose arguments hold the tag. Both hold whatever the environment does.
\<close>

theorem ignored_tags_submit_nothing:
  "(ev_type ev = EVENT_MOUSE_CLICKED \<or> ev_type ev = EVENT_KEY_TYPED
      \<or> ev_type ev = EVENT_HOOK_ENABLED \<or> ev_type ev = EVENT_HOOK_DISABLED
    \<longrightarrow> hook_post_event env ev = Inr \<lparr>logged = [], sent = []\<rparr>)
   \<and> (ev_type ev \<notin> {EVENT_HOOK_ENABLED, EVENT_HOOK_DISABLED, EVENT_KEY_TYPED,
          EVENT_KEY_PRESSED, EVENT_KEY_RELEASED, EVENT_MOUSE_CLICKED, EVENT_MOUSE_PRESSED,
          EVENT_MOUSE_RELEASED, EVENT_MOUSE_MOVED, EVENT_MOUSE_DRAGGED, EVENT_MOUSE_WHEEL}
    \<longrightarrow> hook_post_event env ev = Inr \<lparr>logged = [log_ignoring (ev_type ev)], sent = []\<rparr>
        \<and> entry_level (log_ignoring (ev_type ev)) = LOG_LEVEL_WARN
        \<and> ArgInt (uint (ev_type ev)) \<in> set (entry_args (log_ignoring (ev_type ev))))"
proof (intro conjI impI)
  assume "ev_type ev = EVENT_MOUSE_CLICKED \<or> ev_type ev = EVENT_KEY_TYPED
      \<or> ev_type ev = EVENT_HOOK_ENABLED \<or> ev_type ev = EVENT_HOOK_DISABLED"
  then show "hook_post_event env ev = Inr \<lparr>logged = [], sent = []\<rparr>"
    by (intro hook_post_event_None build_ignored)
next
  assume "ev_type ev \<notin> {EVENT_HOOK_ENABLED, EVENT_HOOK_DISABLED, EVENT_KEY_TYPED,
          EVENT_KEY_PRESSED, EVENT_KEY_RELEASED, EVENT_MOUSE_CLICKED, EVENT_MOUSE_PRESSED,
          EVENT_MOUSE_RELEASED, EVENT_MOUSE_MOVED, EVENT_MOUSE_DRAGGED, EVENT_MOUSE_WHEEL}"
  then show "hook_post_event env ev = Inr \<lparr>logged = [log_ignoring (ev_type ev)], sent = []\<rparr>"
    by (intro hook_post_event_None build_unrecognised) simp_all
next
  show "entry_level (log_ignoring (ev_type ev)) = LOG_LEVEL_WARN"
    by (simp add: log_ignoring_def)
next
  show "ArgInt (uint (ev_type ev)) \<in> set (entry_args (log_ignoring (ev_type ev)))"
    by (simp add: log_ignoring_def)
qed

text \<open>The theorem at a click event and at the tag \<open>77\<close>.\<close>

theorem ignored_tags_submit_nothing_witness:
  "hook_post_event
     \<lparr>GetSystemMetrics = (\<lambda>nIndex. if nIndex = SM_CXSCREEN then 1920 else 1080),
      scancode_to_keycode = (\<lambda>scancode. 0), calloc_ok = True, SendInput = (\<lambda>input. 1),
      GetLastError = 0\<rparr>
     \<lparr>ev_type = EVENT_MOUSE_CLICKED, ev_mask = 0, data_keyboard_keycode = 0,
      data_mouse_button = 1, data_mouse_x = 10, data_mouse_y = 20, data_wheel_amount = 0,
      data_wheel_rotation = 0\<rparr>
    = Inr \<lparr>logged = [], sent = []\<rparr>
   \<and> hook_post_event
     \<lparr>GetSystemMetrics = (\<lambda>nIndex. if nIndex = SM_CXSCREEN then 1920 else 1080),
      scancode_to_keycode = (\<lambda>scancode. 0), calloc_ok = True, SendInput = (\<lambda>input. 1),
      GetLastError = 0\<rparr>
     \<lparr>ev_type = 77, ev_mask = 0, data_keyboard_keycode = 0,
      data_mouse_button = 1, data_mouse_x = 10, data_mouse_y = 20, data_wheel_amount = 0,
      data_wheel_rotation = 0\<rparr>
    = Inr \<lparr>logged = [Logger LOG_LEVEL_WARN ''%s [%u]: Ignoring post event type %#X\<newline>''
               [ArgString ''hook_post_event'', ArgInt 137, ArgInt 77]], sent = []\<rparr>"
  using ignored_tags_submit_nothing
    [of "\<lparr>ev_type = EVENT_MOUSE_CLICKED, ev_mask = 0, data_keyboard_keycode = 0,
      data_mouse_button = 1, data_mouse_x = 10, data_mouse_y = 20, data_wheel_amount = 0,
      data_wheel_rotation = 0\<rparr>"
     "\<lparr>GetSystemMetrics = (\<lambda>nIndex. if nIndex = SM_CXSCREEN then 1920 else 1080),
      scancode_to_keycode = (\<lambda>scancode. 0), calloc_ok = True, SendInput = (\<lambda>input. 1),
      GetLastError = 0\<rparr>"]
    ignored_tags_submit_nothing
    [of "\<lparr>ev_type = 77, ev_mask = 0, data_keyboard_keycode = 0,
      data_mouse_button = 1, data_mouse_x = 10, data_mouse_y = 20, data_wheel_amount = 0,
      data_wheel_rotation = 0\<rparr>"
     "\<lparr>GetSystemMetrics = (\<lambda>nIndex. if nIndex = SM_CXSCREEN then 1920 else 1080),
      scancode_to_keycode = (\<lambda>scancode. 0), calloc_ok = True, SendInput = (\<lambda>input. 1),
      GetLastError = 0\<rparr>"]
  by (simp add: event_type_defs log_ignoring_def)

subsection \<open>C7: a keycode the resolver does not know\<close>

text \<open>
  C7, as the code has it. For a key press or release whose keycode \<^verbatim>\<open>scancode_to_keycode\<close> maps to zero,
  once the record is allocated: the log holds exactly one entry at level WARN, the one of
  line 92, whose arguments hold the keycode of the event; \<^verbatim>\<open>SendInput\<close> is called exactly
  once, and the record it gets has \<^verbatim>\<open>wVk\<close> zero.
\<close>

theorem unresolved_keycode_still_sent:
  assumes "ev_type ev = EVENT_KEY_PRESSED \<or> ev_type ev = EVENT_KEY_RELEASED"
    and "calloc_ok env"
    and "scancode_to_keycode env (data_keyboard_keycode ev) = 0"
  shows "\<exists>out r. hook_post_event env ev = Inr out
      \<and> sent out = [r] \<and> ki_wVk r = 0 \<and> input_type r = INPUT_KEYBOARD
      \<and> filter (\<lambda>e. entry_level e = LOG_LEVEL_WARN) (logged out)
           = [log_lookup_failed (data_keyboard_keycode ev)]
      \<and> ArgInt (uint (data_keyboard_keycode ev))
           \<in> set (entry_args (log_lookup_failed (data_keyboard_keycode ev)))"
  unfolding hook_post_event_keyboard [OF assms(1,2)] using assms(3)
  by (simp add: log_lookup_failed_def log_SendInput_failed_def)

text \<open>The theorem at a press of keycode \<open>999\<close>, with a resolver that knows no key.\<close>

theorem unresolved_keycode_still_sent_witness:
  "\<exists>out r. hook_post_event
     \<lparr>GetSystemMetrics = (\<lambda>nIndex. 0), scancode_to_keycode = (\<lambda>scancode. 0),
      calloc_ok = True, SendInput = (\<lambda>input. 1), GetLastError = 0\<rparr>
     \<lparr>ev_type = EVENT_KEY_PRESSED, ev_mask = 0, data_keyboard_keycode = 999,
      data_mouse_button = 0, data_mouse_x = 0, data_mouse_y = 0, data_wheel_amount = 0,
      data_wheel_rotation = 0\<rparr> = Inr out
    \<and> sent out = [r] \<and> ki_wVk r = 0 \<and> input_type r = INPUT_KEYBOARD
    \<and> filter (\<lambda>e. entry_level e = LOG_LEVEL_WARN) (logged out)
        = [Logger LOG_LEVEL_WARN ''%s [%u]: Unable to lookup scancode: %li\<newline>''
            [ArgString ''hook_post_event'', ArgInt 92, ArgInt 999]]"
  using unresolved_keycode_still_sent
    [of "\<lparr>ev_type = EVENT_KEY_PRESSED, ev_mask = 0, data_keyboard_keycode = 999,
      data_mouse_button = 0, data_mouse_x = 0, data_mouse_y = 0, data_wheel_amount = 0,
      data_wheel_rotation = 0\<rparr>"
     "\<lparr>GetSystemMetrics = (\<lambda>nIndex. 0), scancode_to_keycode = (\<lambda>scancode. 0),
      calloc_ok = True, SendInput = (\<lambda>input. 1), GetLastError = 0\<rparr>"]
  by (simp add: log_lookup_failed_def)

text \<open>
  C7 as stated, for every such event, fails when \<^verbatim>\<open>calloc\<close> returns \<^verbatim>\<open>NULL\<close>: the lookup
  and its warning stand inside the branch that has the record, so a press of keycode
  \<open>999\<close> with no memory left logs one entry at level ERROR, none at level WARN, and
  \<^verbatim>\<open>SendInput\<close> is never called.
\<close>

theorem unresolved_keycode_without_block:
  "hook_post_event
     \<lparr>GetSystemMetrics = (\<lambda>nIndex. 0), scancode_to_keycode = (\<lambda>scancode. 0),
      calloc_ok = False, SendInput = (\<lambda>input. 1), GetLastError = 0\<rparr>
     \<lparr>ev_type = EVENT_KEY_PRESSED, ev_mask = 0, data_keyboard_keycode = 999,
      data_mouse_button = 0, data_mouse_x = 0, data_mouse_y = 0, data_wheel_amount = 0,
      data_wheel_rotation = 0\<rparr>
   = Inr \<lparr>logged = [Logger LOG_LEVEL_ERROR
               ''%s [%u]: failed to allocate memory: calloc\<newline>''
               [ArgString ''hook_post_event'', ArgInt 103]],
          sent = []\<rparr>"
  by (simp add: hook_post_event_None build_no_block log_calloc_failed_def)

subsection \<open>C8: no guard against a zero screen extent\<close>

text \<open>
  C8. The division in \<^verbatim>\<open>convert_to_relative_position\<close> has no guard: with a screen
  size of zero it is a division by zero for every coordinate the caller can pass, and the
  function has a value only if the size is not zero. \<^verbatim>\<open>hook_post_event\<close> does not check
  the extents it read: for every mouse tag, once the record is allocated, a width of zero
  makes the call divide by zero, and a height of zero makes it end in undefined behaviour.
\<close>

theorem no_zero_guard:
  fixes env :: os_env and ev :: uiohook_event
  defines "screen_width \<equiv> (word_of_int (GetSystemMetrics env SM_CXSCREEN) :: 16 word)"
  defines "screen_height \<equiv> (word_of_int (GetSystemMetrics env SM_CYSCREEN) :: 16 word)"
  assumes tag: "ev_type ev = EVENT_MOUSE_PRESSED \<or> ev_type ev = EVENT_MOUSE_RELEASED
      \<or> ev_type ev = EVENT_MOUSE_WHEEL \<or> ev_type ev = EVENT_MOUSE_MOVED
      \<or> ev_type ev = EVENT_MOUSE_DRAGGED"
    and block: "calloc_ok env"
  shows "(screen_width = 0 \<longrightarrow> hook_post_event env ev = Inl DivisionByZero)
       \<and> (screen_height = 0 \<longrightarrow> (\<exists>e. hook_post_event env ev = Inl e))
       \<and> convert_to_relative_position (sint (data_mouse_x ev)) 0 = Inl DivisionByZero
       \<and> convert_to_relative_position (sint (data_mouse_y ev)) 0 = Inl DivisionByZero
       \<and> (\<forall>c s v. convert_to_relative_position c s = Inr v \<longrightarrow> s \<noteq> 0)"
proof -
  note steps = build_mouse_steps [OF tag block]
  have x0: "convert_to_relative_position (sint (data_mouse_x ev)) 0 = Inl DivisionByZero"
    using sint16_range [of "data_mouse_x ev"] by (simp add: convert_zero_size)
  have y0: "convert_to_relative_position (sint (data_mouse_y ev)) 0 = Inl DivisionByZero"
    using sint16_range [of "data_mouse_y ev"] by (simp add: convert_zero_size)
  have w: "hook_post_event env ev = Inl DivisionByZero" if "screen_width = 0"
  proof -
    have "hook_post_event_build env ev = Inl DivisionByZero"
      using that x0 unfolding steps screen_width_def by simp
    then show ?thesis by (rule hook_post_event_Inl)
  qed
  have h: "\<exists>e. hook_post_event env ev = Inl e" if "screen_height = 0"
  proof (cases "convert_to_relative_position (sint (data_mouse_x ev)) (uint screen_width)")
    case (Inl e)
    then have "hook_post_event_build env ev = Inl e"
      unfolding steps screen_width_def by simp
    then show ?thesis by (blast dest: hook_post_event_Inl)
  next
    case (Inr dx)
    then have "hook_post_event_build env ev = Inl DivisionByZero"
      using that y0 unfolding steps screen_width_def screen_height_def by simp
    then show ?thesis by (blast dest: hook_post_event_Inl)
  qed
  show ?thesis
    using w h x0 y0 convert_Inr_nonzero by blast
qed

text \<open>The theorem for a move on a display that reports the extents \<open>0 \<times> 0\<close>.\<close>

theorem no_zero_guard_witness:
  "hook_post_event
     \<lparr>GetSystemMetrics = (\<lambda>nIndex. 0), scancode_to_keycode = (\<lambda>scancode. 0),
      calloc_ok = True, SendInput = (\<lambda>input. 1), GetLastError = 0\<rparr>
     \<lparr>ev_type = EVENT_MOUSE_MOVED, ev_mask = 0, data_keyboard_keycode = 0,
      data_mouse_button = 0, data_mouse_x = 10, data_mouse_y = 20, data_wheel_amount = 0,
      data_wheel_rotation = 0\<rparr>
   = Inl DivisionByZero"
  using no_zero_guard
    [of "\<lparr>ev_type = EVENT_MOUSE_MOVED, ev_mask = 0, data_keyboard_keycode = 0,
      data_mouse_button = 0, data_mouse_x = 10, data_mouse_y = 20, data_wheel_amount = 0,
      data_wheel_rotation = 0\<rparr>"
     "\<lparr>GetSystemMetrics = (\<lambda>nIndex. 0), scancode_to_keycode = (\<lambda>scancode. 0),
      calloc_ok = True, SendInput = (\<lambda>input. 1), GetLastError = 0\<rparr>"]
  by simp

subsection \<open>C9: a failed allocation\<close>

text \<open>
  C9. For every keyboard or mouse tag, when \<^verbatim>\<open>calloc\<close> returns \<^verbatim>\<open>NULL\<close> the call logs
  exactly one entry, at level ERROR (from line 103 for a keyboard tag, line 121 for a
  mouse tag), never calls \<^verbatim>\<open>SendInput\<close>, and returns: nothing else is logged, nothing is
  divided, no keycode is looked at.
\<close>

theorem allocation_failure_skips_submission:
  assumes "\<not> calloc_ok env"
    and "ev_type ev = EVENT_KEY_PRESSED \<or> ev_type ev = EVENT_KEY_RELEASED
      \<or> ev_type ev = EVENT_MOUSE_PRESSED \<or> ev_type ev = EVENT_MOUSE_RELEASED
      \<or> ev_type ev = EVENT_MOUSE_WHEEL \<or> ev_type ev = EVENT_MOUSE_MOVED
      \<or> ev_type ev = EVENT_MOUSE_DRAGGED"
  shows "hook_post_event env ev =
      Inr \<lparr>logged = [log_calloc_failed
               (if ev_type ev = EVENT_KEY_PRESSED \<or> ev_type ev = EVENT_KEY_RELEASED
                then 103 else 121)],
           sent = []\<rparr>
    \<and> entry_level (log_calloc_failed 103) = LOG_LEVEL_ERROR
    \<and> entry_level (log_calloc_failed 121) = LOG_LEVEL_ERROR"
proof -
  have "hook_post_event_build env ev =
      Inr (None, [log_calloc_failed
               (if ev_type ev = EVENT_KEY_PRESSED \<or> ev_type ev = EVENT_KEY_RELEASED
                then 103 else 121)])"
    using assms(2) unfolding build_no_block [OF assms(1)] by auto
  then show ?thesis
    by (simp add: hook_post_event_None log_calloc_failed_def)
qed

text \<open>The theorem at a key press and at a wheel event, with no memory left.\<close>

theorem allocation_failure_skips_submission_witness:
  "hook_post_event
     \<lparr>GetSystemMetrics = (\<lambda>nIndex. 0), scancode_to_keycode = (\<lambda>scancode. 0),
      calloc_ok = False, SendInput = (\<lambda>input. 0), GetLastError = 8\<rparr>
     \<lparr>ev_type = EVENT_KEY_PRESSED, ev_mask = 0, data_keyboard_keycode = 30,
      data_mouse_button = 0, data_mouse_x = 0, data_mouse_y = 0, data_wheel_amount = 0,
      data_wheel_rotation = 0\<rparr>
    = Inr \<lparr>logged = [Logger LOG_LEVEL_ERROR
                ''%s [%u]: failed to allocate memory: calloc\<newline>''
                [ArgString ''hook_post_event'', ArgInt 103]], sent = []\<rparr>
   \<and> hook_post_event
     \<lparr>GetSystemMetrics = (\<lambda>nIndex. 0), scancode_to_keycode = (\<lambda>scancode. 0),
      calloc_ok = False, SendInput = (\<lambda>input. 0), GetLastError = 8\<rparr>
     \<lparr>ev_type = EVENT_MOUSE_WHEEL, ev_mask = 0, data_keyboard_keycode = 0,
      data_mouse_button = 0, data_mouse_x = 5, data_mouse_y = 5, data_wheel_amount = 3,
      data_wheel_rotation = 1\<rparr>
    = Inr \<lparr>logged = [Logger LOG_LEVEL_ERROR
                ''%s [%u]: failed to allocate memory: calloc\<newline>''
                [ArgString ''hook_post_event'', ArgInt 121]], sent = []\<rparr>"
  using allocation_failure_skips_submission
    [of "\<lparr>GetSystemMetrics = (\<lambda>nIndex. 0), scancode_to_keycode = (\<lambda>scancode. 0),
      calloc_ok = False, SendInput = (\<lambda>input. 0), GetLastError = 8\<rparr>"
     "\<lparr>ev_type = EVENT_KEY_PRESSED, ev_mask = 0, data_keyboard_keycode = 30,
      data_mouse_button = 0, data_mouse_x = 0, data_mouse_y = 0, data_wheel_amount = 0,
      data_wheel_rotation = 0\<rparr>"]
    allocation_failure_skips_submission
    [of "\<lparr>GetSystemMetrics = (\<lambda>nIndex. 0), scancode_to_keycode = (\<lambda>scancode. 0),
      calloc_ok = False, SendInput = (\<lambda>input. 0), GetLastError = 8\<rparr>"
     "\<lparr>ev_type = EVENT_MOUSE_WHEEL, ev_mask = 0, data_keyboard_keycode = 0,
      data_mouse_button = 0, data_mouse_x = 5, data_mouse_y = 5, data_wheel_amount = 3,
      data_wheel_rotation = 1\<rparr>"]
  by (simp add: event_type_defs log_calloc_failed_def)

subsection \<open>C10: a drag is injected as a move\<close>

text \<open>
  C10. For a \<^verbatim>\<open>EVENT_MOUSE_MOVED\<close> and a \<^verbatim>\<open>EVENT_MOUSE_DRAGGED\<close> event with the same \<open>x\<close> and
  \<open>y\<close>, in the same environment (so with the same screen extents), the two calls have the
  same outcome altogether: the same log and the same records handed to \<^verbatim>\<open>SendInput\<close>.
  When the record is allocated and both coordinates convert, that one record has
  \<^verbatim>\<open>dwFlags = MOUSEEVENTF_ABSOLUTE | MOUSEEVENTF_MOVE\<close> and nothing more, the two normalised
  coordinates, and zero everywhere else.
\<close>

theorem drag_injected_as_move:
  assumes "ev_type m = EVENT_MOUSE_MOVED" "ev_type d = EVENT_MOUSE_DRAGGED"
    and "data_mouse_x m = data_mouse_x d" "data_mouse_y m = data_mouse_y d"
  shows "hook_post_event env m = hook_post_event env d
    \<and> (calloc_ok env
        \<and> convert_to_relative_position (sint (data_mouse_x d))
            (uint (word_of_int (GetSystemMetrics env SM_CXSCREEN) :: 16 word)) = Inr dx
        \<and> convert_to_relative_position (sint (data_mouse_y d))
            (uint (word_of_int (GetSystemMetrics env SM_CYSCREEN) :: 16 word)) = Inr dy
       \<longrightarrow> (\<exists>out. hook_post_event env d = Inr out
            \<and> sent out =
                [\<lparr>input_type = INPUT_MOUSE, ki_wVk = 0, ki_wScan = 0, ki_dwFlags = 0,
                  ki_time = 0, mi_dx = word_of_int dx, mi_dy = word_of_int dy,
                  mi_mouseData = 0,
                  mi_dwFlags = MOUSEEVENTF_ABSOLUTE OR MOUSEEVENTF_MOVE, mi_time = 0\<rparr>]))"
proof (intro conjI impI)
  have f: "hook_post_event_flags m = hook_post_event_flags d"
    using assms(1,2) by (intro ext) (simp add: flags_move)
  have b: "hook_post_event_build env m = hook_post_event_build env d"
    using assms by (rule build_move_drag)
  show "hook_post_event env m = hook_post_event env d"
    unfolding hook_post_event_def f b ..
next
  assume h: "calloc_ok env
        \<and> convert_to_relative_position (sint (data_mouse_x d))
            (uint (word_of_int (GetSystemMetrics env SM_CXSCREEN) :: 16 word)) = Inr dx
        \<and> convert_to_relative_position (sint (data_mouse_y d))
            (uint (word_of_int (GetSystemMetrics env SM_CYSCREEN) :: 16 word)) = Inr dy"
  have b: "hook_post_event_build env d =
     Inr (Some \<lparr>input_type = INPUT_MOUSE, ki_wVk = 0, ki_wScan = 0, ki_dwFlags = 0, ki_time = 0,
                mi_dx = word_of_int dx, mi_dy = word_of_int dy, mi_mouseData = 0,
                mi_dwFlags = 0, mi_time = 0\<rparr>, [])"
    using assms(2) h by (intro build_mouse) simp_all
  show "\<exists>out. hook_post_event env d = Inr out
            \<and> sent out =
                [\<lparr>input_type = INPUT_MOUSE, ki_wVk = 0, ki_wScan = 0, ki_dwFlags = 0,
                  ki_time = 0, mi_dx = word_of_int dx, mi_dy = word_of_int dy,
                  mi_mouseData = 0,
                  mi_dwFlags = MOUSEEVENTF_ABSOLUTE OR MOUSEEVENTF_MOVE, mi_time = 0\<rparr>]"
    using hook_post_event_Some [OF b flags_move] assms(2) by simp
qed

text \<open>The theorem at \<open>(100, 50)\<close> on a display of \<open>1920 \<times> 1080\<close>.\<close>

theorem drag_injected_as_move_witness:
  "hook_post_event
     \<lparr>GetSystemMetrics = (\<lambda>nIndex. if nIndex = SM_CXSCREEN then 1920 else 1080),
      scancode_to_keycode = (\<lambda>scancode. 0), calloc_ok = True, SendInput = (\<lambda>input. 1),
      GetLastError = 0\<rparr>
     \<lparr>ev_type = EVENT_MOUSE_MOVED, ev_mask = 0, data_keyboard_keycode = 0,
      data_mouse_button = 0, data_mouse_x = 100, data_mouse_y = 50, data_wheel_amount = 0,
      data_wheel_rotation = 0\<rparr>
   = hook_post_event
     \<lparr>GetSystemMetrics = (\<lambda>nIndex. if nIndex = SM_CXSCREEN then 1920 else 1080),
      scancode_to_keycode = (\<lambda>scancode. 0), calloc_ok = True, SendInput = (\<lambda>input. 1),
      GetLastError = 0\<rparr>
     \<lparr>ev_type = EVENT_MOUSE_DRAGGED, ev_mask = 256, data_keyboard_keycode = 0,
      data_mouse_button = 1, data_mouse_x = 100, data_mouse_y = 50, data_wheel_amount = 0,
      data_wheel_rotation = 0\<rparr>
   \<and> (\<exists>out. hook_post_event
     \<lparr>GetSystemMetrics = (\<lambda>nIndex. if nIndex = SM_CXSCREEN then 1920 else 1080),
      scancode_to_keycode = (\<lambda>scancode. 0), calloc_ok = True, SendInput = (\<lambda>input. 1),
      GetLastError = 0\<rparr>
     \<lparr>ev_type = EVENT_MOUSE_DRAGGED, ev_mask = 256, data_keyboard_keycode = 0,
      data_mouse_button = 1, data_mouse_x = 100, data_mouse_y = 50, data_wheel_amount = 0,
      data_wheel_rotation = 0\<rparr> = Inr out
     \<and> sent out =
         [\<lparr>input_type = 0, ki_wVk = 0, ki_wScan = 0, ki_dwFlags = 0, ki_time = 0,
           mi_dx = 3414, mi_dy = 3035, mi_mouseData = 0, mi_dwFlags = 0x8001,
           mi_time = 0\<rparr>])"
proof -
  have x: "convert_to_relative_position 100 1920 = Inr 3414"
    by (simp add: convert_positive)
  have y: "convert_to_relative_position 50 1080 = Inr 3035"
    by (simp add: convert_positive)
  show ?thesis
    using x y drag_injected_as_move
      [of "\<lparr>ev_type = EVENT_MOUSE_MOVED, ev_mask = 0, data_keyboard_keycode = 0,
        data_mouse_button = 0, data_mouse_x = 100, data_mouse_y = 50, data_wheel_amount = 0,
        data_wheel_rotation = 0\<rparr>"
       "\<lparr>ev_type = EVENT_MOUSE_DRAGGED, ev_mask = 256, data_keyboard_keycode = 0,
        data_mouse_button = 1, data_mouse_x = 100, data_mouse_y = 50, data_wheel_amount = 0,
        data_wheel_rotation = 0\<rparr>"
       "\<lparr>GetSystemMetrics = (\<lambda>nIndex. if nIndex = SM_CXSCREEN then 1920 else 1080),
        scancode_to_keycode = (\<lambda>scancode. 0), calloc_ok = True, SendInput = (\<lambda>input. 1),
        GetLastError = 0\<rparr>" 3414 3035]
    by (simp add: SM_CXSCREEN_def SM_CYSCREEN_def INPUT_MOUSE_def MOUSEEVENTF_ABSOLUTE_def
        MOUSEEVENTF_MOVE_def)
qed

end
